theory Spec2Isabelle
  imports Main
begin

section \<open>Roles, Python values and expression nodes\<close>

text \<open>
  The module \<^verbatim>\<open>sql/coercions.py\<close> defines one rule-set class per role
  (\<^verbatim>\<open>ExpressionElementImpl\<close>, \<^verbatim>\<open>BinaryElementImpl\<close>, ...) and registers an
  instance of each in \<^verbatim>\<open>_impl_lookup\<close> under the role class of the same stem.
  (the role classes are declared in \<^verbatim>\<open>sql/roles.py\<close>, outside the source files).
  A role is named here by that role class; \<^verbatim>\<open>_impl_lookup[role]\<close> is total on
  these 27 roles.
\<close>

datatype role =
    ExpressionElementRole | BinaryElementRole | InElementRole | WhereHavingRole
  | StatementOptionRole | ColumnArgumentRole | ColumnArgumentOrKeyRole | ByOfRole
  | OrderByRole | DMLColumnRole | ConstExprRole | TruncatedLabelRole
  | DDLExpressionRole | DDLConstraintColumnRole | LimitOffsetRole
  | LabeledColumnExprRole | ColumnsClauseRole | ReturnsRowsRole | StatementRole
  | CoerceTextStatementRole | SelectStatementRole | HasCTERole | FromClauseRole
  | StrictFromClauseRole | AnonymizedFromClauseRole | DMLSelectRole
  | CompoundElementRole

text \<open>The operator functions of \<^verbatim>\<open>sql/operators.py\<close> that the module compares by identity.\<close>

datatype opr = in_op | notin_op | empty_in_op | empty_notin_op | other_op string

text \<open>
  Modelled from the spec: the expression-tree node classes (\<^verbatim>\<open>sql/elements.py\<close>,
  \<^verbatim>\<open>sql/selectable.py\<close>, \<^verbatim>\<open>sql/schema.py\<close>) are outside the source files; the
  spec treats them as opaque producers. A node built elsewhere (a table, a column, a
  SELECT statement, ...) is \<open>Ext\<close> with the class-level flags the module reads from it.
\<close>

record node_info =
  node_name :: string
  select_statement :: bool
  from_clause :: bool
  text_clause :: bool
  order_by_label :: bool
  bind_parameter :: bool
  expanding :: bool

text \<open>
  A candidate value is a Python value: \<^verbatim>\<open>None\<close>, a boolean, a number, a string, a
  truncated label (\<^verbatim>\<open>elements._truncated_label\<close>, a subclass of \<^verbatim>\<open>str\<close>), an
  iterable, an operator function, any other object (\<open>PObj\<close>, told apart by a number),
  or a tree node (\<^verbatim>\<open>ClauseElement\<close> or \<^verbatim>\<open>SchemaItem\<close>).

  A node is either built elsewhere (\<open>Ext\<close>) or is the result of a constructor or method
  call that the module makes; each such call is a constructor of its own, named after
  the call, so that two different calls never give the same node.
\<close>

datatype pyval =
    PNone
  | PBool bool
  | PInt int
  | PStr string
  | PTruncated string
  | PList "pyval list"
  | POperator opr
  | PObj nat
  | PNode node
and node =
    Ext node_info
  | Null
  | False_clause
  | True_clause
  | ColumnClause string bool
  | TextClause string
  | TextualLabelReference string
  | LabelReference node
  | BindParameter pyval pyval pyval
  | BoundTo node pyval pyval pyval
  | OffsetLimitParam pyval int pyval
  | ClauseList "pyval list"
  | Tuple "pyval list"
  | ScalarSubquery node
  | Subquery node
  | SelectOf node
  | Columns node
  | LabelOf node
  | Alias node pyval
  | SelfGroup node pyval
  | Annotated node opr opr
  | Retyped node node
  | WithExpandingInTypes node node

text \<open>
  \<^item> \<open>ColumnClause text is_literal\<close>: \<^verbatim>\<open>elements.ColumnClause(text, is_literal=...)\<close>.
  \<^item> \<open>BindParameter name value type_\<close>: \<^verbatim>\<open>elements.BindParameter(name, value, type_, unique=True)\<close>.
  \<^item> \<open>BoundTo expr operator value type_\<close>: \<^verbatim>\<open>expr._bind_param(operator, value, type_=type_)\<close>.
  \<^item> \<open>OffsetLimitParam name value type_\<close>: \<^verbatim>\<open>selectable._OffsetLimitParam(name, value, type_=type_, unique=True)\<close>.
  \<^item> \<open>ScalarSubquery n\<close>, \<open>Subquery n\<close>, \<open>SelectOf n\<close>, \<open>Columns n\<close>, \<open>LabelOf n\<close>:
    \<^verbatim>\<open>n.scalar_subquery()\<close>, \<^verbatim>\<open>n.subquery()\<close>, \<^verbatim>\<open>n.select()\<close>, \<^verbatim>\<open>n.columns()\<close>, \<^verbatim>\<open>n.label(None)\<close>.
  \<^item> \<open>Alias n flat\<close>: \<^verbatim>\<open>n.alias(flat=flat)\<close>, an instance of \<^verbatim>\<open>selectable.Alias\<close> whose
    \<^verbatim>\<open>original\<close> is \<open>n\<close>.
  \<^item> \<open>SelfGroup n op\<close>: \<^verbatim>\<open>n.self_group(against=op)\<close>.
  \<^item> \<open>Annotated n op negate_op\<close>: \<^verbatim>\<open>n._annotate(dict(in_ops=(op, negate_op)))\<close>.
  \<^item> \<open>Retyped n expr\<close>: \<^verbatim>\<open>n._clone()\<close> with \<^verbatim>\<open>type\<close> set to \<^verbatim>\<open>expr.type\<close>.
  \<^item> \<open>WithExpandingInTypes n expr\<close>:
    \<^verbatim>\<open>n._with_expanding_in_types([elem.type for elem in expr])\<close>.
\<close>

datatype insp = Descriptor "pyval option"

datatype error =
    ArgumentError string
  | TypeError
  | AttributeError
  | NotImplementedError
  | ValueError

text \<open>
  What a call of \<^verbatim>\<open>expect\<close> does besides returning: it calls the rule set's
  literal-coercion function, its implicit-coercion function, and
  \<^verbatim>\<open>util.warn_deprecated\<close>. A run's outcome is the list of these events in order and
  the value returned or the exception raised.
\<close>

datatype event = LiteralCoercion | ImplicitCoercion | WarnDeprecated string

type_synonym outcome = "event list \<times> (error + pyval)"

definition returns :: "pyval \<Rightarrow> outcome" where
  "returns v = ([], Inr v)"

definition raises :: "error \<Rightarrow> outcome" where
  "raises e = ([], Inl e)"

definition emit :: "event \<Rightarrow> outcome \<Rightarrow> outcome" where
  "emit ev out = (ev # fst out, snd out)"

definition and_then :: "outcome \<Rightarrow> (pyval \<Rightarrow> outcome) \<Rightarrow> outcome" where
  "and_then out f =
     (case snd out of
        Inl e \<Rightarrow> out
      | Inr v \<Rightarrow> (fst out @ fst (f v), snd (f v)))"

text \<open>
  The keyword options \<^verbatim>\<open>**kw\<close> of \<^verbatim>\<open>expect\<close>: a dictionary from the option names
  that the rule-set functions declare to values. A function that declares no
  \<^verbatim>\<open>**kw\<close> raises \<^verbatim>\<open>TypeError\<close> on an option it does not name, and so does one whose
  required option is missing.
\<close>

datatype kwname =
    K_argname | K_allow_select | K_flat | K_as_key | K_expr | K_operator
  | K_name | K_type | K_bindparam_type

type_synonym kwargs = "(kwname \<times> pyval) list"

definition kw_get :: "kwargs \<Rightarrow> kwname \<Rightarrow> pyval option" where
  "kw_get kw k = map_of kw k"

definition kw_or :: "kwargs \<Rightarrow> kwname \<Rightarrow> pyval \<Rightarrow> pyval" where
  "kw_or kw k d = (case map_of kw k of Some v \<Rightarrow> v | None \<Rightarrow> d)"

definition kw_without :: "kwname list \<Rightarrow> kwargs \<Rightarrow> kwargs" where
  "kw_without ks kw = filter (\<lambda>p. fst p \<notin> set ks) kw"

text \<open>
  The collaborators that the module calls and that are outside the source files
  (\<^verbatim>\<open>sql/roles.py\<close>, \<^verbatim>\<open>inspection.py\<close>, \<^verbatim>\<open>util\<close>, the node classes' methods, Python's
  \<^verbatim>\<open>repr\<close>) are parameters:
  \<^item> \<open>role_name r\<close>: \<^verbatim>\<open>role_class._role_name\<close>.
  \<^item> \<open>uses_inspection r\<close>: \<^verbatim>\<open>issubclass(role_class, roles.UsesInspection)\<close>.
  \<^item> \<open>in_role r n\<close>: \<^verbatim>\<open>issubclass(n.__class__, role_class)\<close>.
  \<^item> \<open>clause_element_hook i\<close>: what \<^verbatim>\<open>__clause_element__()\<close> of object \<open>i\<close> returns;
    \<open>None\<close> when the object has no such attribute.
  \<^item> \<open>inspect v\<close>: \<^verbatim>\<open>inspection.inspect(v, raiseerr=False)\<close>; a descriptor holds what its
    own \<^verbatim>\<open>__clause_element__()\<close> returns, \<open>None\<close> when that raises \<^verbatim>\<open>AttributeError\<close>.
  \<^item> \<open>repr v\<close>: Python's \<^verbatim>\<open>repr(v)\<close>, the \<^verbatim>\<open>%r\<close> of string formatting.
  \<^item> \<open>str_other v\<close>: \<^verbatim>\<open>str(v)\<close> of a value that is not a string, a number or a constant.
  \<^item> \<open>ellipses_string s\<close>: \<^verbatim>\<open>util.ellipses_string(s)\<close>.
  \<^item> \<open>literal_error v\<close>: the message of the \<^verbatim>\<open>ArgumentError\<close> that building a bound
    parameter for \<open>v\<close> raises, \<open>None\<close> when it builds.
  \<^item> \<open>asint v\<close>: \<^verbatim>\<open>util.asint(v)\<close> for \<open>v\<close> other than \<^verbatim>\<open>None\<close>.
  \<^item> \<open>column_operators v\<close>: \<^verbatim>\<open>isinstance(v, operators.ColumnOperators)\<close>.
  \<^item> \<open>visitable i\<close>: \<^verbatim>\<open>isinstance(x, (Visitable, schema.SchemaEventTarget))\<close> for the
    object \<open>i\<close>, which is no \<^verbatim>\<open>ClauseElement\<close> and no \<^verbatim>\<open>SchemaItem\<close> (a type object,
    for one).
  \<^item> \<open>type_isnull n\<close>: \<^verbatim>\<open>n.type._isnull\<close>.
  \<^item> \<open>key_of n\<close>: \<^verbatim>\<open>n.key\<close>.
\<close>

record env =
  role_name :: "role \<Rightarrow> string"
  uses_inspection :: "role \<Rightarrow> bool"
  in_role :: "role \<Rightarrow> node \<Rightarrow> bool"
  clause_element_hook :: "nat \<Rightarrow> pyval option"
  inspect :: "pyval \<Rightarrow> insp option"
  repr :: "pyval \<Rightarrow> string"
  str_other :: "pyval \<Rightarrow> string"
  ellipses_string :: "string \<Rightarrow> string"
  literal_error :: "pyval \<Rightarrow> string option"
  asint :: "pyval \<Rightarrow> error + int"
  column_operators :: "pyval \<Rightarrow> bool"
  visitable :: "nat \<Rightarrow> bool"
  type_isnull :: "node \<Rightarrow> bool"
  key_of :: "node \<Rightarrow> pyval"

section \<open>Python predicates\<close>

fun is_node :: "pyval \<Rightarrow> bool" where
  "is_node (PNode n) = True"
| "is_node v = False"

fun is_string :: "pyval \<Rightarrow> bool" where
  "is_string (PStr s) = True"
| "is_string (PTruncated s) = True"
| "is_string v = False"

fun str_content :: "pyval \<Rightarrow> string" where
  "str_content (PStr s) = s"
| "str_content (PTruncated s) = s"
| "str_content v = []"

fun truthy :: "pyval \<Rightarrow> bool" where
  "truthy PNone = False"
| "truthy (PBool b) = b"
| "truthy (PInt i) = (i \<noteq> 0)"
| "truthy (PStr s) = (s \<noteq> [])"
| "truthy (PTruncated s) = (s \<noteq> [])"
| "truthy (PList xs) = (xs \<noteq> [])"
| "truthy v = True"

fun is_number :: "pyval \<Rightarrow> bool" where
  "is_number (PInt i) = True"
| "is_number (PBool b) = True"
| "is_number v = False"

definition hook_of :: "env \<Rightarrow> pyval \<Rightarrow> pyval option" where
  "hook_of env v = (case v of PObj i \<Rightarrow> clause_element_hook env i | _ \<Rightarrow> None)"

text \<open>
  \<^verbatim>\<open>isinstance(element, (Visitable, schema.SchemaEventTarget))\<close>: every
  \<^verbatim>\<open>ClauseElement\<close> is a \<^verbatim>\<open>Visitable\<close> and every \<^verbatim>\<open>SchemaItem\<close> a
  \<^verbatim>\<open>SchemaEventTarget\<close>; another object may be one too; a builtin value is not.
\<close>

definition is_visitable :: "env \<Rightarrow> pyval \<Rightarrow> bool" where
  "is_visitable env element =
     (case element of PNode n \<Rightarrow> True | PObj i \<Rightarrow> visitable env i | _ \<Rightarrow> False)"

text \<open>\<^verbatim>\<open>_is_literal\<close>: not a \<^verbatim>\<open>Visitable\<close> or \<^verbatim>\<open>SchemaEventTarget\<close>, and no conversion hook.\<close>

definition is_literal :: "env \<Rightarrow> pyval \<Rightarrow> bool" where
  "is_literal env element = (\<not> is_visitable env element \<and> hook_of env element = None)"

text \<open>
  \<^verbatim>\<open>issubclass(resolved.__class__, impl._role_class)\<close>: the role classes are mixed into
  node classes only, so a value that is not a node is not of a role.
\<close>

definition accepted :: "env \<Rightarrow> role \<Rightarrow> pyval \<Rightarrow> bool" where
  "accepted env r resolved = (case resolved of PNode n \<Rightarrow> in_role env r n | _ \<Rightarrow> False)"

text \<open>Python's \<^verbatim>\<open>str\<close> of a number, in decimal.\<close>

definition digit :: "nat \<Rightarrow> char" where
  "digit d = ''0123456789'' ! d"

fun str_nat :: "nat \<Rightarrow> string" where
  "str_nat n = (if n < 10 then [digit n] else str_nat (n div 10) @ [digit (n mod 10)])"

declare str_nat.simps [simp del]

definition str_int :: "int \<Rightarrow> string" where
  "str_int i = (if i < 0 then CHR ''-'' # str_nat (nat (- i)) else str_nat (nat i))"

fun py_str :: "env \<Rightarrow> pyval \<Rightarrow> string" where
  "py_str env (PStr s) = s"
| "py_str env (PTruncated s) = s"
| "py_str env (PInt i) = str_int i"
| "py_str env (PBool b) = (if b then ''True'' else ''False'')"
| "py_str env PNone = ''None''"
| "py_str env v = str_other env v"

section \<open>Attributes of nodes\<close>

text \<open>
  Modelled from the spec: the flags \<^verbatim>\<open>_is_select_statement\<close>, \<^verbatim>\<open>_is_from_clause\<close>,
  \<^verbatim>\<open>_is_text_clause\<close>, \<^verbatim>\<open>_order_by_label_element\<close>, \<^verbatim>\<open>expanding\<close> and the classes
  \<^verbatim>\<open>Alias\<close>, \<^verbatim>\<open>BindParameter\<close>, \<^verbatim>\<open>ClauseList\<close>, \<^verbatim>\<open>Tuple\<close> are declared by the node
  classes, outside the source files. A node built elsewhere carries its flags; of the
  nodes built by a call, \<open>SelectOf\<close> and \<open>Columns\<close> are SELECT statements, \<open>Alias\<close> and
  \<open>Subquery\<close> are FROM clauses, \<open>TextClause\<close> is the text clause, \<open>LabelOf\<close> has an
  order-by label, and the bound parameters are those built as such or cloned from one.
\<close>

fun is_select_statement :: "node \<Rightarrow> bool" where
  "is_select_statement (Ext i) = select_statement i"
| "is_select_statement (SelectOf n) = True"
| "is_select_statement (Columns n) = True"
| "is_select_statement n = False"

fun is_from_clause :: "node \<Rightarrow> bool" where
  "is_from_clause (Ext i) = from_clause i"
| "is_from_clause (Alias n f) = True"
| "is_from_clause (Subquery n) = True"
| "is_from_clause n = False"

fun is_text_clause :: "node \<Rightarrow> bool" where
  "is_text_clause (Ext i) = text_clause i"
| "is_text_clause (TextClause s) = True"
| "is_text_clause n = False"

fun is_alias :: "node \<Rightarrow> bool" where
  "is_alias (Alias n f) = True"
| "is_alias n = False"

fun original :: "node \<Rightarrow> node" where
  "original (Alias n f) = n"
| "original n = n"

fun has_order_by_label_element :: "node \<Rightarrow> bool" where
  "has_order_by_label_element (Ext i) = order_by_label i"
| "has_order_by_label_element (LabelOf n) = True"
| "has_order_by_label_element n = False"

fun is_bind_parameter :: "node \<Rightarrow> bool" where
  "is_bind_parameter (Ext i) = bind_parameter i"
| "is_bind_parameter (BindParameter name v t) = True"
| "is_bind_parameter (BoundTo e op v t) = True"
| "is_bind_parameter (OffsetLimitParam name v t) = True"
| "is_bind_parameter (Retyped n e) = True"
| "is_bind_parameter (WithExpandingInTypes n e) = True"
| "is_bind_parameter n = False"

fun is_expanding :: "node \<Rightarrow> bool" where
  "is_expanding (Ext i) = expanding i"
| "is_expanding (WithExpandingInTypes n e) = True"
| "is_expanding n = False"

fun is_clause_list :: "node \<Rightarrow> bool" where
  "is_clause_list (ClauseList xs) = True"
| "is_clause_list (Tuple xs) = True"
| "is_clause_list n = False"

fun clauses :: "node \<Rightarrow> pyval list" where
  "clauses (ClauseList xs) = xs"
| "clauses (Tuple xs) = xs"
| "clauses n = []"

section \<open>Diagnostics\<close>

text \<open>
  \<^verbatim>\<open>RoleImpl._raise_for_expected(element, argname)\<close>: the message is
  \<^verbatim>\<open>"%s expected for argument %r; got %r."\<close> when \<^verbatim>\<open>argname\<close> is truthy, and
  \<^verbatim>\<open>"%s expected, got %r."\<close> otherwise.
\<close>

definition expected_message :: "env \<Rightarrow> role \<Rightarrow> pyval \<Rightarrow> pyval \<Rightarrow> string" where
  "expected_message env r element argname =
     (if truthy argname
      then role_name env r @ '' expected for argument '' @ repr env argname
             @ ''; got '' @ repr env element @ ''.''
      else role_name env r @ '' expected, got '' @ repr env element @ ''.'')"

definition raise_for_expected :: "env \<Rightarrow> role \<Rightarrow> pyval \<Rightarrow> pyval \<Rightarrow> outcome" where
  "raise_for_expected env r element argname =
     raises (ArgumentError (expected_message env r element argname))"

text \<open>\<^verbatim>\<open>_no_text_coercion(element, argname)\<close>, with its defaults for the other parameters.\<close>

definition no_text_message :: "env \<Rightarrow> pyval \<Rightarrow> pyval \<Rightarrow> string" where
  "no_text_message env element argname =
     ''Textual SQL expression ''
       @ repr env (PStr (ellipses_string env (str_content element))) @ '' ''
       @ (if truthy argname then ''for argument '' @ py_str env argname else [])
       @ ''should be explicitly declared as text(''
       @ repr env (PStr (ellipses_string env (str_content element))) @ '')''"

definition no_text_coercion :: "env \<Rightarrow> pyval \<Rightarrow> pyval \<Rightarrow> outcome" where
  "no_text_coercion env element argname =
     raises (ArgumentError (no_text_message env element argname))"

text \<open>
  \<^verbatim>\<open>ColumnsClauseImpl._guess_straight_column\<close>, the pattern \<^verbatim>\<open>^\w\S*$\<close> matched at the
  start of the string, over ASCII: a word character, then no whitespace up to the end,
  where the end may be followed by one newline.
\<close>

definition word_char :: "char \<Rightarrow> bool" where
  "word_char c =
     (c \<in> set ''abcdefghijklmnopqrstuvwxyzABCDEFGHIJKLMNOPQRSTUVWXYZ0123456789_'')"

definition space_char :: "char \<Rightarrow> bool" where
  "space_char c =
     (c \<in> set [CHR '' '', CHR 0x09, CHR 0x0A, CHR 0x0B, CHR 0x0C, CHR 0x0D])"

definition guess_straight_column :: "string \<Rightarrow> bool" where
  "guess_straight_column s =
     (case s of
        [] \<Rightarrow> False
      | c # cs \<Rightarrow>
          word_char c \<and>
          (list_all (\<lambda>x. \<not> space_char x) cs \<or>
           (cs \<noteq> [] \<and> last cs = CHR 0x0A \<and> list_all (\<lambda>x. \<not> space_char x) (butlast cs))))"

definition columns_text_message :: "env \<Rightarrow> pyval \<Rightarrow> pyval \<Rightarrow> string" where
  "columns_text_message env element argname =
     ''Textual column expression ''
       @ repr env (PStr (ellipses_string env (str_content element))) @ '' ''
       @ (if truthy argname then ''for argument '' @ py_str env argname else [])
       @ ''should be explicitly declared with text(''
       @ repr env (PStr (ellipses_string env (str_content element)))
       @ ''), or use ''
       @ (if \<not> guess_straight_column (str_content element)
          then ''literal_column'' else ''column'')
       @ ''('' @ repr env (PStr (ellipses_string env (str_content element)))
       @ '') for more specificity''"

section \<open>Rule sets: which class supplies each function\<close>

text \<open>
  Every rule-set class inherits its functions from its mixins and from \<^verbatim>\<open>RoleImpl\<close>
  along Python's method resolution order. The three tables below give, for each role,
  the class whose \<^verbatim>\<open>_literal_coercion\<close>, \<^verbatim>\<open>_implicit_coercions\<close> and
  \<^verbatim>\<open>_post_coercion\<close> the rule set ends up with.
\<close>

datatype literal_rule =
    L_RoleImpl | L_ReturnsStringKey | L_NoTextCoercion | L_CoerceLiterals
  | L_ExpressionElementImpl | L_BinaryElementImpl | L_InElementImpl
  | L_ConstExprImpl | L_TruncatedLabelImpl | L_LimitOffsetImpl

fun literal_coercion_of :: "role \<Rightarrow> literal_rule" where
  "literal_coercion_of ExpressionElementRole = L_ExpressionElementImpl"
| "literal_coercion_of BinaryElementRole = L_BinaryElementImpl"
| "literal_coercion_of InElementRole = L_InElementImpl"
| "literal_coercion_of WhereHavingRole = L_CoerceLiterals"
| "literal_coercion_of StatementOptionRole = L_CoerceLiterals"
| "literal_coercion_of ColumnArgumentRole = L_NoTextCoercion"
| "literal_coercion_of ColumnArgumentOrKeyRole = L_ReturnsStringKey"
| "literal_coercion_of ByOfRole = L_CoerceLiterals"
| "literal_coercion_of OrderByRole = L_CoerceLiterals"
| "literal_coercion_of DMLColumnRole = L_ReturnsStringKey"
| "literal_coercion_of ConstExprRole = L_ConstExprImpl"
| "literal_coercion_of TruncatedLabelRole = L_TruncatedLabelImpl"
| "literal_coercion_of DDLExpressionRole = L_CoerceLiterals"
| "literal_coercion_of DDLConstraintColumnRole = L_ReturnsStringKey"
| "literal_coercion_of LimitOffsetRole = L_LimitOffsetImpl"
| "literal_coercion_of LabeledColumnExprRole = L_ExpressionElementImpl"
| "literal_coercion_of ColumnsClauseRole = L_CoerceLiterals"
| "literal_coercion_of ReturnsRowsRole = L_RoleImpl"
| "literal_coercion_of StatementRole = L_NoTextCoercion"
| "literal_coercion_of CoerceTextStatementRole = L_CoerceLiterals"
| "literal_coercion_of SelectStatementRole = L_NoTextCoercion"
| "literal_coercion_of HasCTERole = L_RoleImpl"
| "literal_coercion_of FromClauseRole = L_NoTextCoercion"
| "literal_coercion_of StrictFromClauseRole = L_NoTextCoercion"
| "literal_coercion_of AnonymizedFromClauseRole = L_NoTextCoercion"
| "literal_coercion_of DMLSelectRole = L_NoTextCoercion"
| "literal_coercion_of CompoundElementRole = L_NoTextCoercion"

datatype implicit_rule =
    I_RoleImpl | I_ReturnsStringKey | I_ColumnCoercions | I_InElementImpl
  | I_TruncatedLabelImpl | I_LimitOffsetImpl | I_LabeledColumnExprImpl
  | I_SelectStatementImpl | I_FromClauseImpl | I_StrictFromClauseImpl
  | I_DMLSelectImpl | I_CompoundElementImpl

fun implicit_coercions_of :: "role \<Rightarrow> implicit_rule" where
  "implicit_coercions_of ExpressionElementRole = I_ColumnCoercions"
| "implicit_coercions_of BinaryElementRole = I_ColumnCoercions"
| "implicit_coercions_of InElementRole = I_InElementImpl"
| "implicit_coercions_of WhereHavingRole = I_ColumnCoercions"
| "implicit_coercions_of StatementOptionRole = I_RoleImpl"
| "implicit_coercions_of ColumnArgumentRole = I_RoleImpl"
| "implicit_coercions_of ColumnArgumentOrKeyRole = I_ReturnsStringKey"
| "implicit_coercions_of ByOfRole = I_ColumnCoercions"
| "implicit_coercions_of OrderByRole = I_ColumnCoercions"
| "implicit_coercions_of DMLColumnRole = I_ReturnsStringKey"
| "implicit_coercions_of ConstExprRole = I_RoleImpl"
| "implicit_coercions_of TruncatedLabelRole = I_TruncatedLabelImpl"
| "implicit_coercions_of DDLExpressionRole = I_RoleImpl"
| "implicit_coercions_of DDLConstraintColumnRole = I_ReturnsStringKey"
| "implicit_coercions_of LimitOffsetRole = I_LimitOffsetImpl"
| "implicit_coercions_of LabeledColumnExprRole = I_LabeledColumnExprImpl"
| "implicit_coercions_of ColumnsClauseRole = I_RoleImpl"
| "implicit_coercions_of ReturnsRowsRole = I_RoleImpl"
| "implicit_coercions_of StatementRole = I_RoleImpl"
| "implicit_coercions_of CoerceTextStatementRole = I_RoleImpl"
| "implicit_coercions_of SelectStatementRole = I_SelectStatementImpl"
| "implicit_coercions_of HasCTERole = I_RoleImpl"
| "implicit_coercions_of FromClauseRole = I_FromClauseImpl"
| "implicit_coercions_of StrictFromClauseRole = I_StrictFromClauseImpl"
| "implicit_coercions_of AnonymizedFromClauseRole = I_StrictFromClauseImpl"
| "implicit_coercions_of DMLSelectRole = I_DMLSelectImpl"
| "implicit_coercions_of CompoundElementRole = I_CompoundElementImpl"

datatype post_rule =
    P_BinaryElementImpl | P_InElementImpl | P_OrderByImpl | P_DMLColumnImpl
  | P_AnonymizedFromClauseImpl

text \<open>\<^verbatim>\<open>RoleImpl._post_coercion = None\<close> unless a class of the rule set defines one.\<close>

fun post_coercion_of :: "role \<Rightarrow> post_rule option" where
  "post_coercion_of BinaryElementRole = Some P_BinaryElementImpl"
| "post_coercion_of InElementRole = Some P_InElementImpl"
| "post_coercion_of OrderByRole = Some P_OrderByImpl"
| "post_coercion_of DMLColumnRole = Some P_DMLColumnImpl"
| "post_coercion_of AnonymizedFromClauseRole = Some P_AnonymizedFromClauseImpl"
| "post_coercion_of r = None"

text \<open>\<^verbatim>\<open>_StringOnly\<close> replaces \<^verbatim>\<open>_resolve_for_clause_element\<close>; only the truncated-label rule set has it.\<close>

definition string_only :: "role \<Rightarrow> bool" where
  "string_only r = (r = TruncatedLabelRole)"

text \<open>The class attributes of \<^verbatim>\<open>_CoerceLiterals\<close> as the rule sets set them.\<close>

definition coerce_consts :: "role \<Rightarrow> bool" where
  "coerce_consts r =
     (r \<in> {WhereHavingRole, StatementOptionRole, ByOfRole, OrderByRole,
            DDLExpressionRole, ColumnsClauseRole})"

definition coerce_star :: "role \<Rightarrow> bool" where
  "coerce_star r = (r = ColumnsClauseRole)"

definition coerce_numerics :: "role \<Rightarrow> bool" where
  "coerce_numerics r = (r = ColumnsClauseRole)"

section \<open>Literal coercion\<close>

text \<open>\<^verbatim>\<open>_text_coercion(element, argname)\<close> of the rule sets built on \<^verbatim>\<open>_CoerceLiterals\<close>.\<close>

definition text_coercion :: "env \<Rightarrow> role \<Rightarrow> pyval \<Rightarrow> pyval \<Rightarrow> outcome" where
  "text_coercion env r element argname =
     (if r \<in> {StatementOptionRole, DDLExpressionRole, CoerceTextStatementRole}
      then returns (PNode (TextClause (str_content element)))
      else if r \<in> {ByOfRole, OrderByRole}
      then returns (PNode (TextualLabelReference (str_content element)))
      else if r = ColumnsClauseRole
      then raises (ArgumentError (columns_text_message env element argname))
      else no_text_coercion env element argname)"

definition NoTextCoercion_literal_coercion ::
  "env \<Rightarrow> role \<Rightarrow> pyval \<Rightarrow> kwargs \<Rightarrow> outcome" where
  "NoTextCoercion_literal_coercion env r element kw =
     (if is_string element \<and> in_role env r (TextClause (str_content element))
      then no_text_coercion env element (kw_or kw K_argname PNone)
      else raise_for_expected env r element (kw_or kw K_argname PNone))"

definition CoerceLiterals_literal_coercion ::
  "env \<Rightarrow> role \<Rightarrow> pyval \<Rightarrow> kwargs \<Rightarrow> outcome" where
  "CoerceLiterals_literal_coercion env r element kw =
     (if is_string element then
        (if coerce_star r \<and> str_content element = ''*''
         then returns (PNode (ColumnClause ''*'' True))
         else text_coercion env r element (kw_or kw K_argname PNone))
      else if coerce_consts r \<and> element = PNone then returns (PNode Null)
      else if coerce_consts r \<and> element = PBool False then returns (PNode False_clause)
      else if coerce_consts r \<and> element = PBool True then returns (PNode True_clause)
      else if coerce_numerics r \<and> is_number element
      then returns (PNode (ColumnClause (py_str env element) True))
      else raise_for_expected env r element (kw_or kw K_argname PNone))"

text \<open>
  \<^verbatim>\<open>ExpressionElementImpl._literal_coercion\<close>: an \<^verbatim>\<open>ArgumentError\<close> of the
  \<^verbatim>\<open>BindParameter\<close> constructor is replaced by \<^verbatim>\<open>_raise_for_expected(element)\<close>, without
  the argument name.
\<close>

definition ExpressionElementImpl_literal_coercion ::
  "env \<Rightarrow> role \<Rightarrow> pyval \<Rightarrow> kwargs \<Rightarrow> outcome" where
  "ExpressionElementImpl_literal_coercion env r element kw =
     (if element = PNone then returns (PNode Null)
      else (case literal_error env element of
              None \<Rightarrow>
                returns (PNode (BindParameter (kw_or kw K_name PNone) element
                                  (kw_or kw K_type PNone)))
            | Some m \<Rightarrow> raise_for_expected env r element PNone))"

text \<open>\<^verbatim>\<open>expr._bind_param(operator, value, type_=type_)\<close>; \<open>expr\<close> has the method when it is a node.\<close>

definition bind_param :: "env \<Rightarrow> pyval \<Rightarrow> pyval \<Rightarrow> pyval \<Rightarrow> pyval \<Rightarrow> error + pyval" where
  "bind_param env expr operator v t =
     (case expr of
        PNode e \<Rightarrow>
          (case literal_error env v of
             None \<Rightarrow> Inr (PNode (BoundTo e operator v t))
           | Some m \<Rightarrow> Inl (ArgumentError m))
      | _ \<Rightarrow> Inl AttributeError)"

definition BinaryElementImpl_literal_coercion ::
  "env \<Rightarrow> role \<Rightarrow> pyval \<Rightarrow> kwargs \<Rightarrow> outcome" where
  "BinaryElementImpl_literal_coercion env r element kw =
     (case (kw_get kw K_expr, kw_get kw K_operator) of
        (Some expr, Some operator) \<Rightarrow>
          (case bind_param env expr operator element (kw_or kw K_bindparam_type PNone) of
             Inr b \<Rightarrow> returns b
           | Inl (ArgumentError m) \<Rightarrow> raise_for_expected env r element PNone
           | Inl e \<Rightarrow> raises e)
      | _ \<Rightarrow> raises TypeError)"

text \<open>
  \<^verbatim>\<open>InElementImpl._literal_coercion\<close> calls \<^verbatim>\<open>self._raise_for_expected(element, **kw)\<close>
  with the options left after \<^verbatim>\<open>expr\<close> and \<^verbatim>\<open>operator\<close>; any of them besides
  \<^verbatim>\<open>argname\<close> is a \<^verbatim>\<open>TypeError\<close>.
\<close>

definition InElementImpl_reject :: "env \<Rightarrow> role \<Rightarrow> pyval \<Rightarrow> kwargs \<Rightarrow> error" where
  "InElementImpl_reject env r element kw =
     (if kw_without [K_argname] kw \<noteq> [] then TypeError
      else ArgumentError (expected_message env r element (kw_or kw K_argname PNone)))"

text \<open>The loop \<^verbatim>\<open>for o in element\<close>, which stops at the first exception.\<close>

fun in_element_args ::
  "env \<Rightarrow> error \<Rightarrow> pyval \<Rightarrow> pyval \<Rightarrow> pyval list \<Rightarrow> error + pyval list" where
  "in_element_args env rej expr operator [] = Inr []"
| "in_element_args env rej expr operator (x # xs) =
     (case (if \<not> is_literal env x
            then (if \<not> column_operators env x then Inl rej else Inr x)
            else if x = PNone then Inr (PNode Null)
            else bind_param env expr operator x PNone) of
        Inl e \<Rightarrow> Inl e
      | Inr a \<Rightarrow>
          (case in_element_args env rej expr operator xs of
             Inl e \<Rightarrow> Inl e
           | Inr args \<Rightarrow> Inr (a # args)))"

definition InElementImpl_literal_coercion ::
  "env \<Rightarrow> role \<Rightarrow> pyval \<Rightarrow> kwargs \<Rightarrow> outcome" where
  "InElementImpl_literal_coercion env r element kw =
     (case (kw_get kw K_expr, kw_get kw K_operator) of
        (Some expr, Some operator) \<Rightarrow>
          (case element of
             PList xs \<Rightarrow>
               (case in_element_args env
                       (InElementImpl_reject env r element
                          (kw_without [K_expr, K_operator] kw))
                       expr operator xs of
                  Inl e \<Rightarrow> raises e
                | Inr args \<Rightarrow> returns (PNode (ClauseList args)))
           | _ \<Rightarrow>
               raises (InElementImpl_reject env r element
                         (kw_without [K_expr, K_operator] kw)))
      | _ \<Rightarrow> raises TypeError)"

definition ConstExprImpl_literal_coercion ::
  "env \<Rightarrow> role \<Rightarrow> pyval \<Rightarrow> kwargs \<Rightarrow> outcome" where
  "ConstExprImpl_literal_coercion env r element kw =
     (if element = PNone then returns (PNode Null)
      else if element = PBool False then returns (PNode False_clause)
      else if element = PBool True then returns (PNode True_clause)
      else raise_for_expected env r element (kw_or kw K_argname PNone))"

text \<open>
  \<^verbatim>\<open>TruncatedLabelImpl._literal_coercion\<close>: \<^verbatim>\<open>elements._truncated_label(element)\<close> is the
  string of \<open>element\<close> as a truncated label, and \<^verbatim>\<open>None\<close> for \<^verbatim>\<open>None\<close>.
\<close>

definition TruncatedLabelImpl_literal_coercion :: "env \<Rightarrow> pyval \<Rightarrow> outcome" where
  "TruncatedLabelImpl_literal_coercion env element =
     (case element of
        PTruncated s \<Rightarrow> returns element
      | PNone \<Rightarrow> returns PNone
      | _ \<Rightarrow> returns (PTruncated (py_str env element)))"

definition LimitOffsetImpl_literal_coercion ::
  "env \<Rightarrow> pyval \<Rightarrow> kwargs \<Rightarrow> outcome" where
  "LimitOffsetImpl_literal_coercion env element kw =
     (case (kw_get kw K_name, kw_get kw K_type) of
        (Some name, Some t) \<Rightarrow>
          (if element = PNone then returns PNone
           else (case asint env element of
                   Inl e \<Rightarrow> raises e
                 | Inr i \<Rightarrow> returns (PNode (OffsetLimitParam name i t))))
      | _ \<Rightarrow> raises TypeError)"

definition literal_coercion :: "env \<Rightarrow> role \<Rightarrow> pyval \<Rightarrow> kwargs \<Rightarrow> outcome" where
  "literal_coercion env r element kw =
     (case literal_coercion_of r of
        L_RoleImpl \<Rightarrow> raises NotImplementedError
      | L_ReturnsStringKey \<Rightarrow> returns element
      | L_NoTextCoercion \<Rightarrow> NoTextCoercion_literal_coercion env r element kw
      | L_CoerceLiterals \<Rightarrow> CoerceLiterals_literal_coercion env r element kw
      | L_ExpressionElementImpl \<Rightarrow> ExpressionElementImpl_literal_coercion env r element kw
      | L_BinaryElementImpl \<Rightarrow> BinaryElementImpl_literal_coercion env r element kw
      | L_InElementImpl \<Rightarrow> InElementImpl_literal_coercion env r element kw
      | L_ConstExprImpl \<Rightarrow> ConstExprImpl_literal_coercion env r element kw
      | L_TruncatedLabelImpl \<Rightarrow> TruncatedLabelImpl_literal_coercion env element
      | L_LimitOffsetImpl \<Rightarrow> LimitOffsetImpl_literal_coercion env element kw)"

section \<open>Implicit coercion\<close>

definition scalar_subquery_warning :: string where
  "scalar_subquery_warning =
     ''coercing SELECT object to scalar subquery in a column-expression context is deprecated in version 1.4; please use the .scalar_subquery() method to produce a scalar subquery.  This automatic coercion will be removed in a future release.''"

definition subquery_warning :: string where
  "subquery_warning =
     ''Implicit coercion of SELECT and textual SELECT constructs into FROM clauses is deprecated; please call .subquery() on any Core select or ORM Query object in order to produce a subquery object.''"

text \<open>
  Each function below reads a flag of \<^verbatim>\<open>resolved\<close> first; a value that is not a node
  has no such attribute, which is an \<^verbatim>\<open>AttributeError\<close>.
\<close>

definition ColumnCoercions_implicit_coercions ::
  "env \<Rightarrow> role \<Rightarrow> pyval \<Rightarrow> pyval \<Rightarrow> kwargs \<Rightarrow> outcome" where
  "ColumnCoercions_implicit_coercions env r original_element resolved kw =
     (case resolved of
        PNode n \<Rightarrow>
          (if is_select_statement n
           then emit (WarnDeprecated scalar_subquery_warning)
                  (returns (PNode (ScalarSubquery n)))
           else if is_from_clause n \<and> is_alias n \<and> is_select_statement (original n)
           then emit (WarnDeprecated scalar_subquery_warning)
                  (returns (PNode (ScalarSubquery (original n))))
           else raise_for_expected env r original_element (kw_or kw K_argname PNone))
      | _ \<Rightarrow> raises AttributeError)"

text \<open>\<^verbatim>\<open>InElementImpl._implicit_coercions\<close> and \<^verbatim>\<open>DMLSelectImpl._implicit_coercions\<close> have the same body.\<close>

definition select_of_from_clause ::
  "env \<Rightarrow> role \<Rightarrow> pyval \<Rightarrow> pyval \<Rightarrow> kwargs \<Rightarrow> outcome" where
  "select_of_from_clause env r original_element resolved kw =
     (case resolved of
        PNode n \<Rightarrow>
          (if is_from_clause n then
             (if is_alias n \<and> is_select_statement (original n)
              then returns (PNode (original n))
              else returns (PNode (SelectOf n)))
           else raise_for_expected env r original_element (kw_or kw K_argname PNone))
      | _ \<Rightarrow> raises AttributeError)"

text \<open>\<^verbatim>\<open>x.label(None)\<close> when \<^verbatim>\<open>isinstance(x, roles.ExpressionElementRole)\<close>.\<close>

definition label_of_expression :: "env \<Rightarrow> pyval \<Rightarrow> pyval option" where
  "label_of_expression env x =
     (case x of
        PNode n \<Rightarrow>
          (if in_role env ExpressionElementRole n then Some (PNode (LabelOf n)) else None)
      | _ \<Rightarrow> None)"

definition LabeledColumnExprImpl_implicit_coercions ::
  "env \<Rightarrow> role \<Rightarrow> pyval \<Rightarrow> pyval \<Rightarrow> kwargs \<Rightarrow> outcome" where
  "LabeledColumnExprImpl_implicit_coercions env r original_element resolved kw =
     (case label_of_expression env resolved of
        Some l \<Rightarrow> returns l
      | None \<Rightarrow>
          and_then (ColumnCoercions_implicit_coercions env r original_element resolved kw)
            (\<lambda>new.
               (case label_of_expression env new of
                  Some l \<Rightarrow> returns l
                | None \<Rightarrow>
                    raise_for_expected env r original_element (kw_or kw K_argname PNone))))"

definition SelectStatementImpl_implicit_coercions ::
  "env \<Rightarrow> role \<Rightarrow> pyval \<Rightarrow> pyval \<Rightarrow> kwargs \<Rightarrow> outcome" where
  "SelectStatementImpl_implicit_coercions env r original_element resolved kw =
     (case resolved of
        PNode n \<Rightarrow>
          (if is_text_clause n then returns (PNode (Columns n))
           else raise_for_expected env r original_element (kw_or kw K_argname PNone))
      | _ \<Rightarrow> raises AttributeError)"

definition FromClauseImpl_implicit_coercions ::
  "env \<Rightarrow> role \<Rightarrow> pyval \<Rightarrow> pyval \<Rightarrow> kwargs \<Rightarrow> outcome" where
  "FromClauseImpl_implicit_coercions env r original_element resolved kw =
     (case resolved of
        PNode n \<Rightarrow>
          (if is_text_clause n then returns resolved
           else raise_for_expected env r original_element (kw_or kw K_argname PNone))
      | _ \<Rightarrow> raises AttributeError)"

definition StrictFromClauseImpl_implicit_coercions ::
  "env \<Rightarrow> role \<Rightarrow> pyval \<Rightarrow> pyval \<Rightarrow> kwargs \<Rightarrow> outcome" where
  "StrictFromClauseImpl_implicit_coercions env r original_element resolved kw =
     (case resolved of
        PNode n \<Rightarrow>
          (if is_select_statement n \<and> truthy (kw_or kw K_allow_select (PBool False))
           then emit (WarnDeprecated subquery_warning) (returns (PNode (Subquery n)))
           else raise_for_expected env r original_element (kw_or kw K_argname PNone))
      | _ \<Rightarrow> raises AttributeError)"

text \<open>\<^verbatim>\<open>CompoundElementImpl._implicit_coercions\<close> declares \<^verbatim>\<open>argname\<close> and no \<^verbatim>\<open>**kw\<close>.\<close>

definition CompoundElementImpl_implicit_coercions ::
  "env \<Rightarrow> role \<Rightarrow> pyval \<Rightarrow> pyval \<Rightarrow> kwargs \<Rightarrow> outcome" where
  "CompoundElementImpl_implicit_coercions env r original_element resolved kw =
     (if kw_without [K_argname] kw \<noteq> [] then raises TypeError
      else (case resolved of
              PNode n \<Rightarrow>
                (if is_from_clause n then returns resolved
                 else raise_for_expected env r original_element (kw_or kw K_argname PNone))
            | _ \<Rightarrow> raises AttributeError))"

definition implicit_coercions ::
  "env \<Rightarrow> role \<Rightarrow> pyval \<Rightarrow> pyval \<Rightarrow> kwargs \<Rightarrow> outcome" where
  "implicit_coercions env r element resolved kw =
     (case implicit_coercions_of r of
        I_RoleImpl \<Rightarrow> raise_for_expected env r element (kw_or kw K_argname PNone)
      | I_ReturnsStringKey \<Rightarrow>
          (if is_string element then returns element
           else raise_for_expected env r element (kw_or kw K_argname PNone))
      | I_ColumnCoercions \<Rightarrow> ColumnCoercions_implicit_coercions env r element resolved kw
      | I_InElementImpl \<Rightarrow> select_of_from_clause env r element resolved kw
      | I_TruncatedLabelImpl \<Rightarrow>
          (if is_string element then returns resolved
           else raise_for_expected env r element (kw_or kw K_argname PNone))
      | I_LimitOffsetImpl \<Rightarrow>
          (if resolved = PNone then returns PNone
           else raise_for_expected env r element (kw_or kw K_argname PNone))
      | I_LabeledColumnExprImpl \<Rightarrow>
          LabeledColumnExprImpl_implicit_coercions env r element resolved kw
      | I_SelectStatementImpl \<Rightarrow>
          SelectStatementImpl_implicit_coercions env r element resolved kw
      | I_FromClauseImpl \<Rightarrow> FromClauseImpl_implicit_coercions env r element resolved kw
      | I_StrictFromClauseImpl \<Rightarrow>
          StrictFromClauseImpl_implicit_coercions env r element resolved kw
      | I_DMLSelectImpl \<Rightarrow> select_of_from_clause env r element resolved kw
      | I_CompoundElementImpl \<Rightarrow>
          CompoundElementImpl_implicit_coercions env r element resolved kw)"

section \<open>Post-coercion\<close>

text \<open>
  \<^verbatim>\<open>expect\<close> calls \<^verbatim>\<open>impl._post_coercion(resolved, **kw)\<close> only on a value of the role
  class, hence on a node. \<^verbatim>\<open>OrderByImpl._post_coercion\<close> declares no option at all and
  \<^verbatim>\<open>DMLColumnImpl._post_coercion\<close> only \<^verbatim>\<open>as_key\<close>.
\<close>

definition BinaryElementImpl_post_coercion :: "env \<Rightarrow> node \<Rightarrow> kwargs \<Rightarrow> outcome" where
  "BinaryElementImpl_post_coercion env resolved kw =
     (case kw_get kw K_expr of
        None \<Rightarrow> raises TypeError
      | Some expr \<Rightarrow>
          (if is_bind_parameter resolved \<and> type_isnull env resolved then
             (case expr of
                PNode e \<Rightarrow> returns (PNode (Retyped resolved e))
              | _ \<Rightarrow> raises AttributeError)
           else returns (PNode resolved)))"

definition empty_in_ops :: "pyval \<Rightarrow> opr \<times> opr" where
  "empty_in_ops operator =
     (if operator = POperator in_op then (empty_in_op, empty_notin_op)
      else (empty_notin_op, empty_in_op))"

definition InElementImpl_post_coercion :: "node \<Rightarrow> kwargs \<Rightarrow> outcome" where
  "InElementImpl_post_coercion element kw =
     (case (kw_get kw K_expr, kw_get kw K_operator) of
        (Some expr, Some operator) \<Rightarrow>
          (if is_select_statement element then returns (PNode (ScalarSubquery element))
           else if is_clause_list element then
             (if length (clauses element) = 0 then
                returns (PNode (Annotated
                                  (SelfGroup element (POperator (fst (empty_in_ops operator))))
                                  (fst (empty_in_ops operator))
                                  (snd (empty_in_ops operator))))
              else returns (PNode (SelfGroup element operator)))
           else if is_bind_parameter element \<and> is_expanding element then
             (case expr of
                PNode (Tuple es) \<Rightarrow> returns (PNode (WithExpandingInTypes element (Tuple es)))
              | _ \<Rightarrow> returns (PNode element))
           else returns (PNode element))
      | _ \<Rightarrow> raises TypeError)"

definition OrderByImpl_post_coercion :: "env \<Rightarrow> role \<Rightarrow> node \<Rightarrow> kwargs \<Rightarrow> outcome" where
  "OrderByImpl_post_coercion env r resolved kw =
     (if kw \<noteq> [] then raises TypeError
      else if in_role env r resolved \<and> has_order_by_label_element resolved
      then returns (PNode (LabelReference resolved))
      else returns (PNode resolved))"

definition DMLColumnImpl_post_coercion :: "env \<Rightarrow> node \<Rightarrow> kwargs \<Rightarrow> outcome" where
  "DMLColumnImpl_post_coercion env element kw =
     (if kw_without [K_as_key] kw \<noteq> [] then raises TypeError
      else if truthy (kw_or kw K_as_key (PBool False)) then returns (key_of env element)
      else returns (PNode element))"

definition AnonymizedFromClauseImpl_post_coercion :: "node \<Rightarrow> kwargs \<Rightarrow> outcome" where
  "AnonymizedFromClauseImpl_post_coercion element kw =
     returns (PNode (Alias element (kw_or kw K_flat (PBool False))))"

definition post_coercion :: "env \<Rightarrow> role \<Rightarrow> post_rule \<Rightarrow> node \<Rightarrow> kwargs \<Rightarrow> outcome" where
  "post_coercion env r p resolved kw =
     (case p of
        P_BinaryElementImpl \<Rightarrow> BinaryElementImpl_post_coercion env resolved kw
      | P_InElementImpl \<Rightarrow> InElementImpl_post_coercion resolved kw
      | P_OrderByImpl \<Rightarrow> OrderByImpl_post_coercion env r resolved kw
      | P_DMLColumnImpl \<Rightarrow> DMLColumnImpl_post_coercion env resolved kw
      | P_AnonymizedFromClauseImpl \<Rightarrow> AnonymizedFromClauseImpl_post_coercion resolved kw)"

section \<open>Resolution and the dispatcher\<close>

text \<open>
  The loop of \<^verbatim>\<open>RoleImpl._resolve_for_clause_element\<close>:
  \<^verbatim>\<open>while hasattr(element, "__clause_element__") and not isinstance(element, (ClauseElement, SchemaItem))\<close>.
  Nothing bounds it, so it is a partial function: \<open>None\<close> is a run that never leaves
  the loop. The result is the last value and the flag \<^verbatim>\<open>is_clause_element\<close>.
\<close>

partial_function (option) unwrap :: "env \<Rightarrow> pyval \<Rightarrow> bool \<Rightarrow> (pyval \<times> bool) option" where
  "unwrap env element is_clause_element =
     (case (if is_node element then None else hook_of env element) of
        Some v \<Rightarrow> unwrap env v True
      | None \<Rightarrow> Some (element, is_clause_element))"

declare unwrap.simps [code]

text \<open>
  \<^verbatim>\<open>RoleImpl._resolve_for_clause_element(element, argname=None, **kw)\<close>, and the
  replacement \<^verbatim>\<open>_StringOnly._resolve_for_clause_element\<close>, which drops \<^verbatim>\<open>argname\<close>.
  The base function passes \<^verbatim>\<open>argname=argname\<close> on to the literal coercion in every
  case.
\<close>

definition resolve_for_clause_element ::
  "env \<Rightarrow> role \<Rightarrow> pyval \<Rightarrow> kwargs \<Rightarrow> outcome option" where
  "resolve_for_clause_element env r element kw =
     (if string_only r
      then Some (emit LiteralCoercion
                   (literal_coercion env r element (kw_without [K_argname] kw)))
      else
        (case unwrap env element False of
           None \<Rightarrow> None
         | Some (el, is_clause_element) \<Rightarrow>
             Some
               (if \<not> is_clause_element then
                  (case (if uses_inspection env r then inspect env el else None) of
                     Some (Descriptor (Some v)) \<Rightarrow> returns v
                   | Some (Descriptor None) \<Rightarrow>
                       raise_for_expected env r element (kw_or kw K_argname PNone)
                   | None \<Rightarrow>
                       emit LiteralCoercion
                         (literal_coercion env r el
                            ((K_argname, kw_or kw K_argname PNone)
                               # kw_without [K_argname] kw)))
                else returns el)))"

text \<open>\<^verbatim>\<open>expect(role, element, **kw)\<close>.\<close>

definition expect :: "env \<Rightarrow> role \<Rightarrow> pyval \<Rightarrow> kwargs \<Rightarrow> outcome option" where
  "expect env r element kw =
     (case (if \<not> is_node element then resolve_for_clause_element env r element kw
            else Some (returns element)) of
        None \<Rightarrow> None
      | Some res \<Rightarrow>
          Some
            (and_then res
               (\<lambda>resolved.
                  if accepted env r resolved then
                    (case post_coercion_of r of
                       Some p \<Rightarrow>
                         (case resolved of
                            PNode n \<Rightarrow> post_coercion env r p n kw
                          | _ \<Rightarrow> returns resolved)
                     | None \<Rightarrow> returns resolved)
                  else emit ImplicitCoercion (implicit_coercions env r element resolved kw))))"

text \<open>\<^verbatim>\<open>expect_as_key(role, element, **kw)\<close> sets \<^verbatim>\<open>kw["as_key"] = True\<close>.\<close>

definition expect_as_key :: "env \<Rightarrow> role \<Rightarrow> pyval \<Rightarrow> kwargs \<Rightarrow> outcome option" where
  "expect_as_key env r element kw =
     expect env r element ((K_as_key, PBool True) # kw_without [K_as_key] kw)"

section \<open>A sample environment\<close>

text \<open>
  One concrete choice of the collaborators, used to run the definitions: tables and
  aliases are FROM clauses, columns are column expressions, clause lists are IN
  elements; the FROM-clause and columns-clause roles use inspection; object 1 has a
  conversion hook that returns \<^verbatim>\<open>None\<close>, object 2 has a descriptor without a hook,
  object 3 has a descriptor whose hook returns a table, and object 4 has a conversion
  hook that returns a SELECT statement.
\<close>

definition table_t :: node where
  "table_t = Ext \<lparr>node_name = ''t'', select_statement = False, from_clause = True,
                 text_clause = False, order_by_label = False, bind_parameter = False,
                 expanding = False\<rparr>"

definition select_s :: node where
  "select_s = Ext \<lparr>node_name = ''s'', select_statement = True, from_clause = False,
                  text_clause = False, order_by_label = False, bind_parameter = False,
                  expanding = False\<rparr>"

definition column_c :: node where
  "column_c = Ext \<lparr>node_name = ''c'', select_statement = False, from_clause = False,
                  text_clause = False, order_by_label = False, bind_parameter = False,
                  expanding = False\<rparr>"

definition labeled_l :: node where
  "labeled_l = Ext \<lparr>node_name = ''l'', select_statement = False, from_clause = False,
                   text_clause = False, order_by_label = True, bind_parameter = False,
                   expanding = False\<rparr>"

fun sample_in_role :: "role \<Rightarrow> node \<Rightarrow> bool" where
  "sample_in_role r (Ext i) =
     (if from_clause i
      then r \<in> {FromClauseRole, StrictFromClauseRole, AnonymizedFromClauseRole,
                 ColumnsClauseRole}
      else if select_statement i
      then r \<in> {SelectStatementRole, ReturnsRowsRole, StatementRole}
      else if text_clause i
      then r \<in> {StatementRole, WhereHavingRole}
      else r \<in> {ColumnsClauseRole, OrderByRole, ByOfRole, ExpressionElementRole,
                 WhereHavingRole, LabeledColumnExprRole, DMLColumnRole})"
| "sample_in_role r (Alias n f) =
     (r \<in> {FromClauseRole, StrictFromClauseRole, AnonymizedFromClauseRole,
            ColumnsClauseRole})"
| "sample_in_role r (ClauseList xs) = (r = InElementRole)"
| "sample_in_role r (ColumnClause s l) =
     (r \<in> {ColumnsClauseRole, OrderByRole, ByOfRole, ExpressionElementRole})"
| "sample_in_role r (LabelReference n) = (r \<in> {OrderByRole, ByOfRole})"
| "sample_in_role r (TextClause s) = (r \<in> {StatementRole, WhereHavingRole})"
| "sample_in_role r Null =
     (r \<in> {ColumnsClauseRole, ExpressionElementRole, ConstExprRole})"
| "sample_in_role r (OffsetLimitParam name v t) = (r = LimitOffsetRole)"
| "sample_in_role r n = False"

fun sample_role_name :: "role \<Rightarrow> string" where
  "sample_role_name ConstExprRole = ''Constant True/False/None expression''"
| "sample_role_name ColumnsClauseRole = ''Column expression or FROM clause''"
| "sample_role_name FromClauseRole = ''FROM expression, such as a Table or alias() object''"
| "sample_role_name StrictFromClauseRole =
     ''FROM expression, such as a Table or alias() object''"
| "sample_role_name AnonymizedFromClauseRole =
     ''FROM expression, such as a Table or alias() object''"
| "sample_role_name LimitOffsetRole = ''LIMIT / OFFSET expression''"
| "sample_role_name OrderByRole = ''ORDER BY expression''"
| "sample_role_name StatementRole = ''Executable SQL or text() construct''"
| "sample_role_name r = ''SQL expression element''"

fun sample_repr :: "pyval \<Rightarrow> string" where
  "sample_repr PNone = ''None''"
| "sample_repr (PBool b) = (if b then ''True'' else ''False'')"
| "sample_repr (PInt i) = str_int i"
| "sample_repr (PStr s) = [CHR 0x27] @ s @ [CHR 0x27]"
| "sample_repr (PNode (Ext i)) = ''<'' @ node_name i @ ''>''"
| "sample_repr v = ''<object>''"

fun sample_asint :: "pyval \<Rightarrow> error + int" where
  "sample_asint (PInt i) = Inr i"
| "sample_asint (PBool b) = Inr (if b then 1 else 0)"
| "sample_asint (PStr s) = Inl ValueError"
| "sample_asint v = Inl TypeError"

definition sample_env :: env where
  "sample_env =
     \<lparr>role_name = sample_role_name,
      uses_inspection = (\<lambda>r. r \<in> {ColumnsClauseRole, FromClauseRole, StrictFromClauseRole,
                                     AnonymizedFromClauseRole}),
      in_role = sample_in_role,
      clause_element_hook =
        (\<lambda>i. if i = 1 then Some PNone
             else if i = 4 then Some (PNode select_s)
             else None),
      inspect = (\<lambda>v. if v = PObj 2 then Some (Descriptor None)
                      else if v = PObj 3 then Some (Descriptor (Some (PNode table_t)))
                      else None),
      repr = sample_repr,
      str_other = (\<lambda>v. ''<object>''),
      ellipses_string = (\<lambda>s. if length s > 25 then take 25 s @ ''...'' else s),
      literal_error = (\<lambda>v. None),
      asint = sample_asint,
      column_operators = is_node,
      visitable = (\<lambda>i. False),
      type_isnull = (\<lambda>n. False),
      key_of = (\<lambda>n. PStr ''key'')\<rparr>"

text \<open>
  The generic inspection facility has no descriptor for a value, where the role
  consults it at all.
\<close>

definition inspection_declines :: "env \<Rightarrow> role \<Rightarrow> pyval \<Rightarrow> bool" where
  "inspection_declines env r v = (uses_inspection env r \<longrightarrow> inspect env v = None)"

text \<open>
  The role consults the inspection facility and the descriptor of the value has a
  conversion hook, so that the value resolves to what the hook returns.
\<close>

definition inspection_converts :: "env \<Rightarrow> role \<Rightarrow> pyval \<Rightarrow> bool" where
  "inspection_converts env r v =
     (case inspect env v of
        Some (Descriptor (Some w)) \<Rightarrow> uses_inspection env r
      | _ \<Rightarrow> False)"

text \<open>
  The messages an \<^verbatim>\<open>ArgumentError\<close> of \<^verbatim>\<open>expect(role, v, **kw)\<close> can carry: the two of
  \<^verbatim>\<open>_raise_for_expected\<close> for the value \<open>v\<close>, one that starts as those of
  \<^verbatim>\<open>_no_text_coercion\<close> or of \<^verbatim>\<open>ColumnsClauseImpl._text_coercion\<close> do for the string
  \<open>v\<close>, or one that a collaborator raised.
\<close>

definition coercion_message :: "env \<Rightarrow> role \<Rightarrow> pyval \<Rightarrow> kwargs \<Rightarrow> string \<Rightarrow> bool" where
  "coercion_message env r v kw m =
     ((truthy (kw_or kw K_argname PNone)
         \<and> m = role_name env r @ '' expected for argument ''
                @ repr env (kw_or kw K_argname PNone) @ ''; got '' @ repr env v @ ''.'')
      \<or> m = role_name env r @ '' expected, got '' @ repr env v @ ''.''
      \<or> (is_string v
           \<and> (\<exists>rest. m = ''Textual SQL expression ''
                          @ repr env (PStr (ellipses_string env (str_content v))) @ rest))
      \<or> (r = ColumnsClauseRole \<and> is_string v
           \<and> (\<exists>rest. m = ''Textual column expression ''
                          @ repr env (PStr (ellipses_string env (str_content v))) @ rest))
      \<or> (\<exists>x. literal_error env x = Some m)
      \<or> asint env v = Inl (ArgumentError m))"

section \<open>Basic facts\<close>

lemma unwrap_no_hook: "hook_of env v = None \<Longrightarrow> unwrap env v b = Some (v, b)"
  by (simp add: unwrap.simps)

lemma hook_of_builtin [simp]:
  "hook_of env PNone = None" "hook_of env (PBool b) = None" "hook_of env (PInt i) = None"
  "hook_of env (PStr s) = None" "hook_of env (PTruncated s) = None"
  "hook_of env (PList xs) = None" "hook_of env (POperator p) = None"
  "hook_of env (PNode n) = None"
  by (simp_all add: hook_of_def)

text \<open>On a node \<^verbatim>\<open>expect\<close> skips the resolution: \<^verbatim>\<open>resolved = element\<close>.\<close>

lemma expect_node:
  "expect env r (PNode n) kw =
     Some (if in_role env r n
           then (case post_coercion_of r of
                   None \<Rightarrow> returns (PNode n)
                 | Some p \<Rightarrow> post_coercion env r p n kw)
           else emit ImplicitCoercion (implicit_coercions env r (PNode n) (PNode n) kw))"
  by (simp add: expect_def returns_def and_then_def accepted_def emit_def split: option.splits)

lemma post_coercion_no_events: "fst (post_coercion env r p n kw) = []"
  by (cases p)
     (auto simp: post_coercion_def BinaryElementImpl_post_coercion_def
        InElementImpl_post_coercion_def OrderByImpl_post_coercion_def
        DMLColumnImpl_post_coercion_def AnonymizedFromClauseImpl_post_coercion_def
        returns_def raises_def split: option.splits pyval.splits node.splits)

lemma sample_simps:
  "in_role sample_env = sample_in_role"
  "uses_inspection sample_env r =
     (r \<in> {ColumnsClauseRole, FromClauseRole, StrictFromClauseRole, AnonymizedFromClauseRole})"
  "repr sample_env = sample_repr"
  "role_name sample_env = sample_role_name"
  "clause_element_hook sample_env i =
     (if i = 1 then Some PNone else if i = 4 then Some (PNode select_s) else None)"
  "inspect sample_env v =
     (if v = PObj 2 then Some (Descriptor None)
      else if v = PObj 3 then Some (Descriptor (Some (PNode table_t)))
      else None)"
  "ellipses_string sample_env s = (if length s > 25 then take 25 s @ ''...'' else s)"
  by (simp_all add: sample_env_def)

text \<open>Resolution of a value that is no node and has no conversion hook.\<close>

lemma resolve_no_hook:
  assumes "\<not> string_only r" "hook_of env v = None"
  shows "resolve_for_clause_element env r v kw =
     Some (case (if uses_inspection env r then inspect env v else None) of
             Some (Descriptor (Some w)) \<Rightarrow> returns w
           | Some (Descriptor None) \<Rightarrow> raise_for_expected env r v (kw_or kw K_argname PNone)
           | None \<Rightarrow>
               emit LiteralCoercion
                 (literal_coercion env r v
                    ((K_argname, kw_or kw K_argname PNone) # kw_without [K_argname] kw)))"
  using assms by (simp add: resolve_for_clause_element_def unwrap_no_hook)

lemma resolve_declined:
  assumes "\<not> string_only r" "hook_of env v = None" "inspection_declines env r v"
  shows "resolve_for_clause_element env r v kw =
     Some (emit LiteralCoercion
             (literal_coercion env r v
                ((K_argname, kw_or kw K_argname PNone) # kw_without [K_argname] kw)))"
  using assms by (auto simp: resolve_no_hook inspection_declines_def)

text \<open>An exception of the resolution leaves \<^verbatim>\<open>expect\<close> as it is.\<close>

lemma expect_of_resolve:
  assumes "\<not> is_node v" "resolve_for_clause_element env r v kw = Some (es, Inl e)"
  shows "expect env r v kw = Some (es, Inl e)"
  using assms by (simp add: expect_def and_then_def)

lemma str_int_5: "str_int 5 = ''5''"
  by (simp add: str_int_def str_nat.simps digit_def)

lemma kw_or_cons_same [simp]: "kw_or ((k, v) # kw) k d = v"
  by (simp add: kw_or_def)

lemma kw_get_without:
  "kw_get (kw_without ks kw) k = (if k \<in> set ks then None else kw_get kw k)"
  by (induction kw) (auto simp: kw_get_def kw_without_def)

text \<open>
  \<^verbatim>\<open>expect\<close> on a value that is no node, has no conversion hook and no descriptor: the
  literal coercion, then the type check.
\<close>

lemma expect_literal:
  assumes "\<not> string_only r" "\<not> is_node v" "hook_of env v = None" "inspection_declines env r v"
  shows "expect env r v kw =
     Some (and_then
             (emit LiteralCoercion
                (literal_coercion env r v
                   ((K_argname, kw_or kw K_argname PNone) # kw_without [K_argname] kw)))
             (\<lambda>resolved.
                if accepted env r resolved then
                  (case post_coercion_of r of
                     Some p \<Rightarrow>
                       (case resolved of
                          PNode n \<Rightarrow> post_coercion env r p n kw
                        | _ \<Rightarrow> returns resolved)
                   | None \<Rightarrow> returns resolved)
                else emit ImplicitCoercion (implicit_coercions env r v resolved kw)))"
  using assms by (simp add: expect_def resolve_declined)

lemma kw_get_cons: "kw_get ((k', v) # kw) k = (if k = k' then Some v else kw_get kw k)"
  by (simp add: kw_get_def)

text \<open>The loop of the IN role keeps one argument for each member of the iterable.\<close>

lemma in_element_args_length:
  "in_element_args env rej expr operator xs = Inr args \<Longrightarrow> length args = length xs"
  by (induction xs arbitrary: args) (auto split: sum.splits if_splits)

lemma expect_in_nonempty:
  assumes "xs \<noteq> []" "inspection_declines env InElementRole (PList xs)"
  shows "expect env InElementRole (PList xs) kw \<noteq> Some (es, Inr (PNode (Annotated n a b)))"
proof -
  have ne: "\<And>args. in_element_args env rej expr operator xs = Inr args \<Longrightarrow> args \<noteq> []"
    for rej expr operator
    using in_element_args_length assms(1) by fastforce
  show ?thesis
    using assms(2)
    apply (simp add: expect_literal string_only_def literal_coercion_def
             InElementImpl_literal_coercion_def)
    apply (auto simp: and_then_def emit_def raises_def returns_def accepted_def
             post_coercion_def InElementImpl_post_coercion_def implicit_coercions_def
             select_of_from_clause_def raise_for_expected_def kw_get_without
           split: option.splits sum.splits dest!: ne)
    done
qed

text \<open>What the ordering role returns, called without options, has no order-by label left.\<close>

lemma order_by_result_no_label:
  assumes "expect env OrderByRole v [] = Some (es, Inr (PNode n))"
  shows "\<not> (in_role env OrderByRole n \<and> has_order_by_label_element n)"
  using assms
  by (auto simp: expect_def and_then_def accepted_def post_coercion_def
        OrderByImpl_post_coercion_def returns_def raises_def emit_def implicit_coercions_def
        ColumnCoercions_implicit_coercions_def raise_for_expected_def
        split: option.splits sum.splits if_splits pyval.splits)



lemma raise_for_expected_none_message:
  "raise_for_expected env r v PNone = (es, Inl (ArgumentError m))
   \<Longrightarrow> coercion_message env r v kw m"
  by (auto simp: raise_for_expected_def raises_def expected_message_def coercion_message_def)









section \<open>The identity fast path\<close>

text \<open>
  Claim C1 says that \<^verbatim>\<open>expect(R, N)\<close> returns \<open>N\<close> itself for every role and every node
  of the role, roles with a post-coercion function included. The anonymized-FROM role
  refutes it: a table of that role comes back as an alias of the table.
\<close>

theorem expect_anonymized_from_not_identity:
  "in_role sample_env AnonymizedFromClauseRole table_t
   \<and> expect sample_env AnonymizedFromClauseRole (PNode table_t) []
       = Some ([], Inr (PNode (Alias table_t (PBool False))))
   \<and> expect sample_env AnonymizedFromClauseRole (PNode table_t) []
       \<noteq> Some ([], Inr (PNode table_t))"
  by (simp add: expect_node sample_simps table_t_def post_coercion_def
        AnonymizedFromClauseImpl_post_coercion_def returns_def kw_or_def)

text \<open>
  Claim C1, amended: for a node \<open>n\<close> of role \<open>r\<close>, \<^verbatim>\<open>expect\<close> calls neither the
  literal coercion nor the implicit coercion and emits no warning (the event list is
  empty) whatever the options are; it returns \<open>n\<close> itself when the rule set of \<open>r\<close> has
  no post-coercion function, and the alias \<^verbatim>\<open>n.alias(flat=flat)\<close> for the
  anonymized-FROM role.
\<close>

theorem expect_accepted_node:
  assumes "in_role env r n"
  shows "(post_coercion_of r = None \<longrightarrow> expect env r (PNode n) kw = Some ([], Inr (PNode n)))
       \<and> (r = AnonymizedFromClauseRole \<longrightarrow>
            expect env r (PNode n) kw
              = Some ([], Inr (PNode (Alias n (kw_or kw K_flat (PBool False))))))
       \<and> (\<exists>res. expect env r (PNode n) kw = Some ([], res))"
proof (intro conjI impI)
  assume "post_coercion_of r = None"
  with assms show "expect env r (PNode n) kw = Some ([], Inr (PNode n))"
    by (simp add: expect_node returns_def)
next
  assume "r = AnonymizedFromClauseRole"
  with assms show "expect env r (PNode n) kw
              = Some ([], Inr (PNode (Alias n (kw_or kw K_flat (PBool False)))))"
    by (simp add: expect_node post_coercion_def AnonymizedFromClauseImpl_post_coercion_def
          returns_def)
next
  show "\<exists>res. expect env r (PNode n) kw = Some ([], res)"
  proof (cases "post_coercion_of r")
    case None
    with assms show ?thesis by (simp add: expect_node returns_def)
  next
    case (Some p)
    obtain es res where pc: "post_coercion env r p n kw = (es, res)"
      by (cases "post_coercion env r p n kw")
    with post_coercion_no_events [of env r p n kw] have "es = []" by simp
    with assms Some pc show ?thesis by (simp add: expect_node)
  qed
qed

text \<open>
  The amended claim C1 at a table: the columns-clause role, which has no
  post-coercion function, returns the table; the anonymized-FROM role returns its alias.
\<close>

theorem expect_accepted_node_witness:
  "in_role sample_env ColumnsClauseRole table_t
   \<and> post_coercion_of ColumnsClauseRole = None
   \<and> in_role sample_env AnonymizedFromClauseRole table_t
   \<and> expect sample_env ColumnsClauseRole (PNode table_t) [] = Some ([], Inr (PNode table_t))
   \<and> expect sample_env AnonymizedFromClauseRole (PNode table_t) []
       = Some ([], Inr (PNode (Alias table_t (PBool False))))"
proof -
  have a: "in_role sample_env ColumnsClauseRole table_t"
    by (simp add: sample_simps table_t_def)
  have b: "in_role sample_env AnonymizedFromClauseRole table_t"
    by (simp add: sample_simps table_t_def)
  show ?thesis
    using expect_accepted_node [OF a, of "[]"] expect_accepted_node [OF b, of "[]"] a b
    by (simp add: kw_or_def)
qed

section \<open>The inspection step\<close>

text \<open>
  Claim C2 says that resolution falls through to the literal coercion also when the
  descriptor returned by the inspection facility exposes no conversion hook. Object 2
  of the sample environment has such a descriptor: the columns-clause role raises for
  it at once, and the literal coercion is not called.
\<close>

theorem resolve_descriptor_without_hook_raises:
  "uses_inspection sample_env ColumnsClauseRole
   \<and> \<not> is_node (PObj 2) \<and> hook_of sample_env (PObj 2) = None
   \<and> inspect sample_env (PObj 2) = Some (Descriptor None)
   \<and> resolve_for_clause_element sample_env ColumnsClauseRole (PObj 2) []
        = Some ([], Inl (ArgumentError ''Column expression or FROM clause expected, got <object>.''))
   \<and> resolve_for_clause_element sample_env ColumnsClauseRole (PObj 2) []
        \<noteq> Some (emit LiteralCoercion
                  (literal_coercion sample_env ColumnsClauseRole (PObj 2) [(K_argname, PNone)]))"
  by (simp add: resolve_no_hook string_only_def hook_of_def sample_simps raise_for_expected_def
        raises_def expected_message_def kw_or_def emit_def)

text \<open>
  Claim C2, amended: for a role that uses inspection (and does not replace the
  resolution, as the string-only rule set does) and a value that is no node and has no
  conversion hook: when the inspection facility declines, the resolution is the call of
  the role's literal coercion, with \<^verbatim>\<open>argname\<close> passed on; when the descriptor has no
  conversion hook, the resolution and \<^verbatim>\<open>expect\<close> raise the role's \<^verbatim>\<open>ArgumentError\<close> for
  the value without calling the literal coercion; when the descriptor has a hook, its
  result is the resolved value.
\<close>

theorem resolve_with_inspection:
  assumes "uses_inspection env r" "\<not> string_only r" "\<not> is_node v" "hook_of env v = None"
  shows "(inspect env v = None \<longrightarrow>
            resolve_for_clause_element env r v kw =
              Some (emit LiteralCoercion
                      (literal_coercion env r v
                         ((K_argname, kw_or kw K_argname PNone) # kw_without [K_argname] kw))))
       \<and> (inspect env v = Some (Descriptor None) \<longrightarrow>
            resolve_for_clause_element env r v kw =
              Some ([], Inl (ArgumentError (expected_message env r v (kw_or kw K_argname PNone))))
            \<and> expect env r v kw =
              Some ([], Inl (ArgumentError (expected_message env r v (kw_or kw K_argname PNone)))))
       \<and> (\<forall>w. inspect env v = Some (Descriptor (Some w)) \<longrightarrow>
            resolve_for_clause_element env r v kw = Some ([], Inr w))"
  using assms
  by (auto simp: resolve_no_hook raise_for_expected_def raises_def returns_def
        intro!: expect_of_resolve)

text \<open>
  The amended claim C2 in the sample environment, for the columns-clause role: the
  number 5 has no descriptor and is coerced as a literal, object 2 raises, object 3
  resolves to the table of its descriptor.
\<close>

theorem resolve_with_inspection_witness:
  "uses_inspection sample_env ColumnsClauseRole \<and> \<not> string_only ColumnsClauseRole
   \<and> \<not> is_node (PInt 5) \<and> hook_of sample_env (PInt 5) = None
   \<and> inspect sample_env (PInt 5) = None
   \<and> \<not> is_node (PObj 2) \<and> hook_of sample_env (PObj 2) = None
   \<and> inspect sample_env (PObj 2) = Some (Descriptor None)
   \<and> \<not> is_node (PObj 3) \<and> hook_of sample_env (PObj 3) = None
   \<and> inspect sample_env (PObj 3) = Some (Descriptor (Some (PNode table_t)))
   \<and> resolve_for_clause_element sample_env ColumnsClauseRole (PInt 5) []
        = Some ([LiteralCoercion], Inr (PNode (ColumnClause ''5'' True)))
   \<and> expect sample_env ColumnsClauseRole (PObj 2) []
        = Some ([], Inl (ArgumentError ''Column expression or FROM clause expected, got <object>.''))
   \<and> resolve_for_clause_element sample_env ColumnsClauseRole (PObj 3) []
        = Some ([], Inr (PNode table_t))"
proof -
  have u: "uses_inspection sample_env ColumnsClauseRole" by (simp add: sample_simps)
  have s: "\<not> string_only ColumnsClauseRole" by (simp add: string_only_def)
  have h: "hook_of sample_env (PObj 2) = None" "hook_of sample_env (PObj 3) = None"
    "hook_of sample_env (PInt 5) = None"
    by (simp_all add: hook_of_def sample_simps)
  have n: "\<not> is_node (PInt 5)" "\<not> is_node (PObj 2)" "\<not> is_node (PObj 3)" by simp_all
  show ?thesis
    using resolve_with_inspection [OF u s n(1) h(3), of "[]"]
      resolve_with_inspection [OF u s n(2) h(1), of "[]"]
      resolve_with_inspection [OF u s n(3) h(2), of "[]"] u s h str_int_5
    by (simp add: sample_simps kw_or_def kw_without_def emit_def literal_coercion_def
          CoerceLiterals_literal_coercion_def coerce_consts_def coerce_numerics_def
          coerce_star_def returns_def expected_message_def)
qed

section \<open>A SELECT statement where a strict FROM clause is required\<close>

text \<open>
  Claim C3: for the strict FROM-clause role, when the resolved value is a SELECT
  statement \<open>n\<close> (which is not of the role), be it the value supplied or what the
  conversion hook of the value supplied returns: with \<^verbatim>\<open>allow_select\<close> false or absent
  \<^verbatim>\<open>expect\<close> raises the role's \<^verbatim>\<open>ArgumentError\<close> for the value supplied; with
  \<^verbatim>\<open>allow_select\<close> true it returns \<^verbatim>\<open>n.subquery()\<close> and emits exactly one deprecation
  warning, the only event besides the call of the implicit coercion.
\<close>

theorem expect_strict_from_select:
  assumes "is_select_statement n" "\<not> in_role env StrictFromClauseRole n"
    "element = PNode n \<or> (element = PObj i \<and> clause_element_hook env i = Some (PNode n))"
  shows "(\<not> truthy (kw_or kw K_allow_select (PBool False)) \<longrightarrow>
            expect env StrictFromClauseRole element kw =
              Some ([ImplicitCoercion],
                    Inl (ArgumentError (expected_message env StrictFromClauseRole element
                                          (kw_or kw K_argname PNone)))))
       \<and> (truthy (kw_or kw K_allow_select (PBool False)) \<longrightarrow>
            expect env StrictFromClauseRole element kw =
              Some ([ImplicitCoercion, WarnDeprecated subquery_warning],
                    Inr (PNode (Subquery n))))"
proof (cases "element = PNode n")
  case True
  with assms(1,2) show ?thesis
    by (simp add: expect_node implicit_coercions_def StrictFromClauseImpl_implicit_coercions_def
          emit_def returns_def raise_for_expected_def raises_def)
next
  case False
  with assms(3) have el: "element = PObj i" and h: "clause_element_hook env i = Some (PNode n)"
    by simp_all
  have "unwrap env (PObj i) False = Some (PNode n, True)"
    by (subst unwrap.simps) (simp add: hook_of_def h unwrap_no_hook)
  with assms(1,2) el show ?thesis
    by (simp add: expect_def resolve_for_clause_element_def string_only_def and_then_def
          accepted_def implicit_coercions_def StrictFromClauseImpl_implicit_coercions_def
          emit_def returns_def raise_for_expected_def raises_def)
qed

text \<open>
  Claim C3 in the sample environment: the SELECT statement itself without
  \<^verbatim>\<open>allow_select\<close>, and object 4, whose hook returns it, with \<^verbatim>\<open>allow_select=True\<close>.
\<close>

theorem expect_strict_from_select_witness:
  "is_select_statement select_s \<and> \<not> in_role sample_env StrictFromClauseRole select_s
   \<and> clause_element_hook sample_env 4 = Some (PNode select_s)
   \<and> \<not> truthy (kw_or [] K_allow_select (PBool False))
   \<and> truthy (kw_or [(K_allow_select, PBool True)] K_allow_select (PBool False))
   \<and> expect sample_env StrictFromClauseRole (PNode select_s) [] =
        Some ([ImplicitCoercion],
              Inl (ArgumentError
                     ''FROM expression, such as a Table or alias() object expected, got <s>.''))
   \<and> expect sample_env StrictFromClauseRole (PObj 4) [(K_allow_select, PBool True)] =
        Some ([ImplicitCoercion, WarnDeprecated subquery_warning],
              Inr (PNode (Subquery select_s)))"
proof -
  have a: "is_select_statement select_s" by (simp add: select_s_def)
  have b: "\<not> in_role sample_env StrictFromClauseRole select_s"
    by (simp add: sample_simps select_s_def)
  have h: "clause_element_hook sample_env 4 = Some (PNode select_s)"
    by (simp add: sample_simps)
  have c: "PNode select_s = PNode select_s
             \<or> (PNode select_s = PObj 0 \<and> clause_element_hook sample_env 0 = Some (PNode select_s))"
    by simp
  have d: "PObj 4 = PNode select_s
             \<or> (PObj 4 = PObj 4 \<and> clause_element_hook sample_env 4 = Some (PNode select_s))"
    using h by simp
  show ?thesis
    using expect_strict_from_select [OF a b c, of "[]"]
      expect_strict_from_select [OF a b d, of "[(K_allow_select, PBool True)]"] a b h
    by (simp add: kw_or_def expected_message_def sample_simps select_s_def)
qed

section \<open>Literals of the columns clause\<close>

text \<open>
  Claim C6: for the columns-clause role, \<^verbatim>\<open>expect\<close> on the string \<^verbatim>\<open>"*"\<close> returns the
  literal column \<^verbatim>\<open>ColumnClause("*", is_literal=True)\<close>, on the number 5 the literal column
  whose text is \<^verbatim>\<open>"5"\<close>, and on \<^verbatim>\<open>None\<close> the null node; each where the inspection facility
  has no descriptor for the value and the node returned is of the role.
\<close>

theorem expect_columns_clause_literals:
  "(inspection_declines env ColumnsClauseRole (PStr ''*'')
      \<and> in_role env ColumnsClauseRole (ColumnClause ''*'' True) \<longrightarrow>
    expect env ColumnsClauseRole (PStr ''*'') kw
      = Some ([LiteralCoercion], Inr (PNode (ColumnClause ''*'' True))))
 \<and> (inspection_declines env ColumnsClauseRole (PInt 5)
      \<and> in_role env ColumnsClauseRole (ColumnClause ''5'' True) \<longrightarrow>
    expect env ColumnsClauseRole (PInt 5) kw
      = Some ([LiteralCoercion], Inr (PNode (ColumnClause ''5'' True))))
 \<and> (inspection_declines env ColumnsClauseRole PNone
      \<and> in_role env ColumnsClauseRole Null \<longrightarrow>
    expect env ColumnsClauseRole PNone kw = Some ([LiteralCoercion], Inr (PNode Null)))"
  by (simp add: expect_literal string_only_def literal_coercion_def
        CoerceLiterals_literal_coercion_def coerce_star_def coerce_consts_def
        coerce_numerics_def str_int_5 returns_def emit_def and_then_def accepted_def)

text \<open>Claim C6 in the sample environment.\<close>

theorem expect_columns_clause_literals_witness:
  "inspection_declines sample_env ColumnsClauseRole (PStr ''*'')
   \<and> in_role sample_env ColumnsClauseRole (ColumnClause ''*'' True)
   \<and> inspection_declines sample_env ColumnsClauseRole (PInt 5)
   \<and> in_role sample_env ColumnsClauseRole (ColumnClause ''5'' True)
   \<and> inspection_declines sample_env ColumnsClauseRole PNone
   \<and> in_role sample_env ColumnsClauseRole Null
   \<and> expect sample_env ColumnsClauseRole (PStr ''*'') []
      = Some ([LiteralCoercion], Inr (PNode (ColumnClause ''*'' True)))
   \<and> expect sample_env ColumnsClauseRole (PInt 5) []
      = Some ([LiteralCoercion], Inr (PNode (ColumnClause ''5'' True)))
   \<and> expect sample_env ColumnsClauseRole PNone [] = Some ([LiteralCoercion], Inr (PNode Null))"
  using expect_columns_clause_literals [of sample_env "[]"]
  by (simp add: inspection_declines_def sample_simps)

section \<open>Strings under the no-text-coercion policy\<close>

text \<open>
  Claim C7: for every role whose literal coercion is that of \<^verbatim>\<open>_NoTextCoercion\<close>,
  \<^verbatim>\<open>expect\<close> on a string raises an \<^verbatim>\<open>ArgumentError\<close>, whatever the options are
  (\<^verbatim>\<open>argname\<close> present or absent), unless the inspection facility itself converts the
  string for a role that consults it.
\<close>

theorem expect_no_text_coercion_raises:
  assumes "literal_coercion_of r = L_NoTextCoercion" "is_string v"
    "\<not> inspection_converts env r v"
  shows "\<exists>es m. expect env r v kw = Some (es, Inl (ArgumentError m))"
proof -
  have so: "\<not> string_only r" using assms(1) by (auto simp: string_only_def)
  have nn: "\<not> is_node v" and nh: "hook_of env v = None"
    using assms(2) by (cases v; simp)+
  have lit: "\<exists>m. literal_coercion env r v
                 ((K_argname, kw_or kw K_argname PNone) # kw_without [K_argname] kw)
               = ([], Inl (ArgumentError m))"
    using assms(1)
    by (simp add: literal_coercion_def NoTextCoercion_literal_coercion_def no_text_coercion_def
          raise_for_expected_def raises_def)
  have "\<exists>es m. resolve_for_clause_element env r v kw = Some (es, Inl (ArgumentError m))"
    using lit assms(3)
    by (auto simp: resolve_no_hook [OF so nh] inspection_converts_def emit_def
          raise_for_expected_def raises_def split: option.splits insp.splits)
  then show ?thesis using expect_of_resolve [OF nn] by blast
qed

text \<open>Claim C7 at the FROM-clause role, which consults the inspection facility, with an argument name.\<close>

theorem expect_no_text_coercion_raises_witness:
  "literal_coercion_of FromClauseRole = L_NoTextCoercion \<and> is_string (PStr ''raw sql'')
   \<and> \<not> inspection_converts sample_env FromClauseRole (PStr ''raw sql'')
   \<and> (\<exists>es m. expect sample_env FromClauseRole (PStr ''raw sql'') [(K_argname, PStr ''x'')]
               = Some (es, Inl (ArgumentError m)))"
proof -
  have a: "literal_coercion_of FromClauseRole = L_NoTextCoercion" by simp
  have b: "is_string (PStr ''raw sql'')" by simp
  have c: "\<not> inspection_converts sample_env FromClauseRole (PStr ''raw sql'')"
    by (simp add: inspection_converts_def sample_simps)
  show ?thesis
    using expect_no_text_coercion_raises [OF a b c, of "[(K_argname, PStr ''x'')]"] a b c
    by simp
qed

section \<open>Ordering by a label\<close>

text \<open>
  Claim C9: for the ordering role, when the resolved value is a node \<open>n\<close> of the role,
  be it the value supplied or what the conversion hook of the value supplied returns,
  \<^verbatim>\<open>expect\<close> returns the label reference \<^verbatim>\<open>_label_reference(n)\<close> when the
  \<^verbatim>\<open>_order_by_label_element\<close> of \<open>n\<close> is not \<^verbatim>\<open>None\<close>, and \<open>n\<close> unchanged when it is.
\<close>

theorem expect_order_by_label:
  assumes "in_role env OrderByRole n"
    "element = PNode n \<or> (element = PObj i \<and> clause_element_hook env i = Some (PNode n))"
  shows "expect env OrderByRole element [] =
           Some ([], Inr (PNode (if has_order_by_label_element n then LabelReference n else n)))"
proof (cases "element = PNode n")
  case True
  with assms(1) show ?thesis
    by (simp add: expect_node post_coercion_def OrderByImpl_post_coercion_def returns_def)
next
  case False
  with assms(2) have el: "element = PObj i" and h: "clause_element_hook env i = Some (PNode n)"
    by simp_all
  have "unwrap env (PObj i) False = Some (PNode n, True)"
    by (subst unwrap.simps) (simp add: hook_of_def h unwrap_no_hook)
  with assms(1) el show ?thesis
    by (simp add: expect_def resolve_for_clause_element_def string_only_def and_then_def
          accepted_def post_coercion_def OrderByImpl_post_coercion_def returns_def)
qed

text \<open>Claim C9 at a labelled expression and at a plain column.\<close>

theorem expect_order_by_label_witness:
  "in_role sample_env OrderByRole labeled_l \<and> in_role sample_env OrderByRole column_c
   \<and> has_order_by_label_element labeled_l \<and> \<not> has_order_by_label_element column_c
   \<and> expect sample_env OrderByRole (PNode labeled_l) []
       = Some ([], Inr (PNode (LabelReference labeled_l)))
   \<and> expect sample_env OrderByRole (PNode column_c) [] = Some ([], Inr (PNode column_c))"
proof -
  have a: "in_role sample_env OrderByRole labeled_l" by (simp add: sample_simps labeled_l_def)
  have b: "in_role sample_env OrderByRole column_c" by (simp add: sample_simps column_c_def)
  have c: "has_order_by_label_element labeled_l" "\<not> has_order_by_label_element column_c"
    by (simp_all add: labeled_l_def column_c_def)
  have d: "PNode labeled_l = PNode labeled_l
             \<or> (PNode labeled_l = PObj 0 \<and> clause_element_hook sample_env 0 = Some (PNode labeled_l))"
    "PNode column_c = PNode column_c
             \<or> (PNode column_c = PObj 0 \<and> clause_element_hook sample_env 0 = Some (PNode column_c))"
    by simp_all
  show ?thesis
    using expect_order_by_label [OF a d(1)] expect_order_by_label [OF b d(2)] a b c by simp
qed

section \<open>Limit and offset\<close>

text \<open>
  Claim C10: for the limit/offset role, \<^verbatim>\<open>expect\<close> on \<^verbatim>\<open>None\<close> returns \<^verbatim>\<open>None\<close> and raises
  nothing, both when \<^verbatim>\<open>None\<close> is the value supplied (with the options \<^verbatim>\<open>name\<close> and
  \<^verbatim>\<open>type_\<close> that the literal coercion requires; the literal coercion returns \<^verbatim>\<open>None\<close>,
  then the implicit coercion does) and when \<^verbatim>\<open>None\<close> is the resolved value (the value's
  conversion hook returns it); the implicit coercion raises the role's
  \<^verbatim>\<open>ArgumentError\<close> on every other resolved value, as \<^verbatim>\<open>expect\<close> does on every node that
  is not of the role.
\<close>

theorem expect_limit_offset_none:
  "(inspection_declines env LimitOffsetRole PNone
      \<and> kw_get kw K_name \<noteq> None \<and> kw_get kw K_type \<noteq> None \<longrightarrow>
    expect env LimitOffsetRole PNone kw = Some ([LiteralCoercion, ImplicitCoercion], Inr PNone))
 \<and> (clause_element_hook env i = Some PNone \<longrightarrow>
    expect env LimitOffsetRole (PObj i) kw = Some ([ImplicitCoercion], Inr PNone))
 \<and> (resolved \<noteq> PNone \<longrightarrow>
    implicit_coercions env LimitOffsetRole element resolved kw
      = ([], Inl (ArgumentError (expected_message env LimitOffsetRole element
                                   (kw_or kw K_argname PNone)))))
 \<and> (\<not> in_role env LimitOffsetRole n \<longrightarrow>
    expect env LimitOffsetRole (PNode n) kw
      = Some ([ImplicitCoercion],
              Inl (ArgumentError (expected_message env LimitOffsetRole (PNode n)
                                    (kw_or kw K_argname PNone)))))"
proof (intro conjI impI)
  assume a: "inspection_declines env LimitOffsetRole PNone
      \<and> kw_get kw K_name \<noteq> None \<and> kw_get kw K_type \<noteq> None"
  then have "kw_get (kw_without [K_argname] kw) K_name \<noteq> None"
    "kw_get (kw_without [K_argname] kw) K_type \<noteq> None"
    by (simp_all add: kw_get_without)
  with a show "expect env LimitOffsetRole PNone kw
                 = Some ([LiteralCoercion, ImplicitCoercion], Inr PNone)"
    by (auto simp add: expect_literal string_only_def literal_coercion_def
        LimitOffsetImpl_literal_coercion_def kw_get_def
        returns_def emit_def and_then_def accepted_def implicit_coercions_def)
next
  assume h: "clause_element_hook env i = Some PNone"
  have "unwrap env (PObj i) False = Some (PNone, True)"
    by (subst unwrap.simps) (simp add: hook_of_def h unwrap_no_hook)
  then show "expect env LimitOffsetRole (PObj i) kw = Some ([ImplicitCoercion], Inr PNone)"
    by (simp add: expect_def resolve_for_clause_element_def string_only_def
        returns_def emit_def and_then_def accepted_def implicit_coercions_def)
next
  assume "resolved \<noteq> PNone"
  then show "implicit_coercions env LimitOffsetRole element resolved kw
      = ([], Inl (ArgumentError (expected_message env LimitOffsetRole element
                                   (kw_or kw K_argname PNone))))"
    by (simp add: implicit_coercions_def raise_for_expected_def raises_def)
next
  assume "\<not> in_role env LimitOffsetRole n"
  then show "expect env LimitOffsetRole (PNode n) kw
      = Some ([ImplicitCoercion],
              Inl (ArgumentError (expected_message env LimitOffsetRole (PNode n)
                                    (kw_or kw K_argname PNone))))"
    by (simp add: expect_node implicit_coercions_def raise_for_expected_def raises_def emit_def)
qed

text \<open>
  Claim C10 in the sample environment: \<^verbatim>\<open>None\<close> with \<^verbatim>\<open>name\<close> and \<^verbatim>\<open>type_\<close>, object 1
  whose hook returns \<^verbatim>\<open>None\<close>, the resolved value 3, and a column, which is not of the
  role.
\<close>

theorem expect_limit_offset_none_witness:
  "inspection_declines sample_env LimitOffsetRole PNone
   \<and> kw_get [(K_name, PNone), (K_type, PNone)] K_name \<noteq> None
   \<and> kw_get [(K_name, PNone), (K_type, PNone)] K_type \<noteq> None
   \<and> clause_element_hook sample_env 1 = Some PNone
   \<and> PInt 3 \<noteq> PNone
   \<and> \<not> in_role sample_env LimitOffsetRole column_c
   \<and> expect sample_env LimitOffsetRole PNone [(K_name, PNone), (K_type, PNone)]
        = Some ([LiteralCoercion, ImplicitCoercion], Inr PNone)
   \<and> expect sample_env LimitOffsetRole (PObj 1) [(K_name, PNone), (K_type, PNone)]
        = Some ([ImplicitCoercion], Inr PNone)
   \<and> implicit_coercions sample_env LimitOffsetRole (PObj 1) (PInt 3)
          [(K_name, PNone), (K_type, PNone)]
        = ([], Inl (ArgumentError ''LIMIT / OFFSET expression expected, got <object>.''))
   \<and> expect sample_env LimitOffsetRole (PNode column_c) [(K_name, PNone), (K_type, PNone)]
        = Some ([ImplicitCoercion],
                Inl (ArgumentError ''LIMIT / OFFSET expression expected, got <c>.''))"
  using expect_limit_offset_none
          [of sample_env "[(K_name, PNone), (K_type, PNone)]" 1 "PInt 3" "PObj 1" column_c]
  by (simp add: inspection_declines_def sample_simps kw_get_def kw_or_def column_c_def
        expected_message_def)

section \<open>The empty IN list\<close>

text \<open>
  Claim C4: for the IN role, called with its options \<^verbatim>\<open>expr\<close> and \<^verbatim>\<open>operator\<close>,
  \<^verbatim>\<open>expect\<close> on an empty iterable returns the grouped empty clause list annotated with
  \<^verbatim>\<open>in_ops = (empty_in_op, empty_notin_op)\<close> when the operator is \<^verbatim>\<open>in_op\<close> and with
  \<^verbatim>\<open>in_ops = (empty_notin_op, empty_in_op)\<close> otherwise, hence for \<^verbatim>\<open>notin_op\<close>; and
  \<^verbatim>\<open>expect\<close> on a non-empty iterable never has this outcome. The inspection facility
  has no descriptor for the iterables, and the clause list is of the role.
\<close>

theorem expect_in_empty_marker:
  assumes "kw_get kw K_expr = Some expr" "kw_get kw K_operator = Some operator"
    "inspection_declines env InElementRole (PList [])"
    "in_role env InElementRole (ClauseList [])"
  shows "(operator = POperator in_op \<longrightarrow>
            expect env InElementRole (PList []) kw =
              Some ([LiteralCoercion],
                    Inr (PNode (Annotated (SelfGroup (ClauseList []) (POperator empty_in_op))
                                  empty_in_op empty_notin_op))))
       \<and> (operator \<noteq> POperator in_op \<longrightarrow>
            expect env InElementRole (PList []) kw =
              Some ([LiteralCoercion],
                    Inr (PNode (Annotated (SelfGroup (ClauseList []) (POperator empty_notin_op))
                                  empty_notin_op empty_in_op))))
       \<and> (\<forall>xs. xs \<noteq> [] \<and> inspection_declines env InElementRole (PList xs) \<longrightarrow>
            expect env InElementRole (PList xs) kw \<noteq> expect env InElementRole (PList []) kw)"
proof -
  have e: "expect env InElementRole (PList []) kw =
             Some ([LiteralCoercion],
                   Inr (PNode (Annotated
                                 (SelfGroup (ClauseList [])
                                    (POperator (fst (empty_in_ops operator))))
                                 (fst (empty_in_ops operator)) (snd (empty_in_ops operator)))))"
    using assms
    by (simp add: expect_literal string_only_def literal_coercion_def
          InElementImpl_literal_coercion_def kw_get_without kw_get_cons and_then_def emit_def
          returns_def accepted_def post_coercion_def InElementImpl_post_coercion_def)
  show ?thesis
    using e expect_in_nonempty [of _ env kw]
    by (auto simp: empty_in_ops_def)
qed

text \<open>
  Claim C4 in the sample environment, against a column: the empty list under \<^verbatim>\<open>in_op\<close>
  and under \<^verbatim>\<open>notin_op\<close>, and the list \<^verbatim>\<open>[1]\<close>.
\<close>

theorem expect_in_empty_marker_witness:
  "kw_get [(K_expr, PNode column_c), (K_operator, POperator in_op)] K_expr
     = Some (PNode column_c)
   \<and> kw_get [(K_expr, PNode column_c), (K_operator, POperator in_op)] K_operator
     = Some (POperator in_op)
   \<and> kw_get [(K_expr, PNode column_c), (K_operator, POperator notin_op)] K_expr
     = Some (PNode column_c)
   \<and> kw_get [(K_expr, PNode column_c), (K_operator, POperator notin_op)] K_operator
     = Some (POperator notin_op)
   \<and> inspection_declines sample_env InElementRole (PList [])
   \<and> in_role sample_env InElementRole (ClauseList [])
   \<and> [PInt 1] \<noteq> [] \<and> inspection_declines sample_env InElementRole (PList [PInt 1])
   \<and> expect sample_env InElementRole (PList [])
        [(K_expr, PNode column_c), (K_operator, POperator in_op)]
      = Some ([LiteralCoercion],
              Inr (PNode (Annotated (SelfGroup (ClauseList []) (POperator empty_in_op))
                            empty_in_op empty_notin_op)))
   \<and> expect sample_env InElementRole (PList [])
        [(K_expr, PNode column_c), (K_operator, POperator notin_op)]
      = Some ([LiteralCoercion],
              Inr (PNode (Annotated (SelfGroup (ClauseList []) (POperator empty_notin_op))
                            empty_notin_op empty_in_op)))
   \<and> expect sample_env InElementRole (PList [PInt 1])
        [(K_expr, PNode column_c), (K_operator, POperator in_op)]
      \<noteq> expect sample_env InElementRole (PList [])
          [(K_expr, PNode column_c), (K_operator, POperator in_op)]"
proof -
  have k: "kw_get [(K_expr, PNode column_c), (K_operator, POperator in_op)] K_expr
             = Some (PNode column_c)"
    "kw_get [(K_expr, PNode column_c), (K_operator, POperator in_op)] K_operator
       = Some (POperator in_op)"
    "kw_get [(K_expr, PNode column_c), (K_operator, POperator notin_op)] K_expr
       = Some (PNode column_c)"
    "kw_get [(K_expr, PNode column_c), (K_operator, POperator notin_op)] K_operator
       = Some (POperator notin_op)"
    by (simp_all add: kw_get_def)
  have d: "inspection_declines sample_env InElementRole (PList [])"
    "inspection_declines sample_env InElementRole (PList [PInt 1])"
    by (simp_all add: inspection_declines_def sample_simps)
  have m: "in_role sample_env InElementRole (ClauseList [])" by (simp add: sample_simps)
  note t = expect_in_empty_marker [OF k(1) k(2) d(1) m]
  from t d(2) have ne:
    "expect sample_env InElementRole (PList [PInt 1])
       [(K_expr, PNode column_c), (K_operator, POperator in_op)]
     \<noteq> expect sample_env InElementRole (PList [])
         [(K_expr, PNode column_c), (K_operator, POperator in_op)]"
    by blast
  show ?thesis
    using t expect_in_empty_marker [OF k(3) k(4) d(1) m] ne k d m
    by simp
qed

section \<open>Applying the dispatcher twice\<close>

text \<open>
  Claim C5 says that a second \<^verbatim>\<open>expect\<close> on the result of a first returns an equal
  value for every role, and that the anonymized-FROM role does not alias twice. It
  does: the alias that the first call returns for a table comes back from the second
  call as an alias of that alias.
\<close>

theorem expect_anonymized_from_aliases_twice:
  "expect sample_env AnonymizedFromClauseRole (PNode table_t) []
     = Some ([], Inr (PNode (Alias table_t (PBool False))))
   \<and> expect sample_env AnonymizedFromClauseRole (PNode (Alias table_t (PBool False))) []
     = Some ([], Inr (PNode (Alias (Alias table_t (PBool False)) (PBool False))))
   \<and> expect sample_env AnonymizedFromClauseRole (PNode (Alias table_t (PBool False))) []
     \<noteq> expect sample_env AnonymizedFromClauseRole (PNode table_t) []"
  by (simp add: expect_node sample_simps table_t_def post_coercion_def
        AnonymizedFromClauseImpl_post_coercion_def returns_def kw_or_def)

text \<open>
  Claim C5, amended: for a role whose rule set has no post-coercion function, and for
  the ordering role called without options, when \<^verbatim>\<open>expect\<close> has returned a node \<open>n\<close>
  that is of the role, a second \<^verbatim>\<open>expect\<close> on \<open>n\<close> returns \<open>n\<close> itself, with no call
  of a coercion; in particular the ordering role does not wrap a label reference again.
\<close>

theorem expect_twice:
  assumes "post_coercion_of r = None \<or> (r = OrderByRole \<and> kw = [])"
    "expect env r v kw = Some (es, Inr (PNode n))" "in_role env r n"
  shows "expect env r (PNode n) kw = Some ([], Inr (PNode n))"
  using assms order_by_result_no_label [of env v es n]
  by (auto simp: expect_node returns_def post_coercion_def OrderByImpl_post_coercion_def)

text \<open>
  The amended claim C5 in the sample environment: the literal column that the
  columns-clause role makes of the number 5, and the label reference that the ordering
  role makes of a labelled expression.
\<close>

theorem expect_twice_witness:
  "(post_coercion_of ColumnsClauseRole = None
      \<or> (ColumnsClauseRole = OrderByRole \<and> [] = ([]::kwargs)))
   \<and> expect sample_env ColumnsClauseRole (PInt 5) []
       = Some ([LiteralCoercion], Inr (PNode (ColumnClause ''5'' True)))
   \<and> in_role sample_env ColumnsClauseRole (ColumnClause ''5'' True)
   \<and> expect sample_env ColumnsClauseRole (PNode (ColumnClause ''5'' True)) []
       = Some ([], Inr (PNode (ColumnClause ''5'' True)))
   \<and> (post_coercion_of OrderByRole = None \<or> (OrderByRole = OrderByRole \<and> [] = ([]::kwargs)))
   \<and> expect sample_env OrderByRole (PNode labeled_l) []
       = Some ([], Inr (PNode (LabelReference labeled_l)))
   \<and> in_role sample_env OrderByRole (LabelReference labeled_l)
   \<and> expect sample_env OrderByRole (PNode (LabelReference labeled_l)) []
       = Some ([], Inr (PNode (LabelReference labeled_l)))"
proof -
  have a: "post_coercion_of ColumnsClauseRole = None
             \<or> (ColumnsClauseRole = OrderByRole \<and> [] = ([]::kwargs))"
    by simp
  have b: "expect sample_env ColumnsClauseRole (PInt 5) []
             = Some ([LiteralCoercion], Inr (PNode (ColumnClause ''5'' True)))"
    by (simp add: expect_literal string_only_def inspection_declines_def sample_simps
          literal_coercion_def CoerceLiterals_literal_coercion_def coerce_star_def
          coerce_consts_def coerce_numerics_def str_int_5 returns_def emit_def and_then_def
          accepted_def)
  have c: "in_role sample_env ColumnsClauseRole (ColumnClause ''5'' True)"
    by (simp add: sample_simps)
  have a': "post_coercion_of OrderByRole = None \<or> (OrderByRole = OrderByRole \<and> [] = ([]::kwargs))"
    by simp
  have b': "expect sample_env OrderByRole (PNode labeled_l) []
              = Some ([], Inr (PNode (LabelReference labeled_l)))"
    by (simp add: expect_node sample_simps labeled_l_def post_coercion_def
          OrderByImpl_post_coercion_def returns_def)
  have c': "in_role sample_env OrderByRole (LabelReference labeled_l)"
    by (simp add: sample_simps)
  show ?thesis
    using expect_twice [OF a b c] expect_twice [OF a' b' c'] a b c a' b' c' by simp
qed

section \<open>The messages of the errors\<close>




end
